theory Spec2Isabelle
  imports Complex_Main "HOL-Library.AList"
begin

section \<open>JavaScript values\<close>

text \<open>
  The values the model and schema code handle. An array and an object carry an
  identity (a number standing for the reference), so that \<open>===\<close> on them is the
  comparison of references that JavaScript makes. An object also carries its class
  and its own enumerable properties in the order \<open>Object.keys\<close> lists them. A finite
  number is the rational it denotes; \<open>NaN\<close> and the two infinities are values of their
  own. A string is a list of characters with codes below 256.

  The class of an object is what the code can see of it besides its properties: the
  tag \<open>T\<close> that \<open>Object.prototype.toString.call(value)\<close> shows as \<open>[object T]\<close>, and the
  name that \<open>value.constructor.name\<close> reads. An object literal has the tag and the
  name \<open>Object\<close>; an instance of a class of the program (\<open>Transaction\<close>, \<open>Int\<close>,
  \<open>Double\<close>, \<open>GeoPoint\<close>, \<open>Key\<close>) has the tag \<open>Object\<close> and the name of the class;
  an instance of a built-in class has the tag of that class (\<open>Date\<close>, \<open>RegExp\<close>,
  \<open>Error\<close>, \<open>Map\<close>, \<open>Uint8Array\<close>, ...) and the name of its constructor (a \<open>Buffer\<close>
  has the tag \<open>Uint8Array\<close>, a \<open>TypeError\<close> the tag \<open>Error\<close>).
\<close>

record jsclass =
  class_tag :: string
  class_name :: string

abbreviation object_class :: jsclass where
  "object_class \<equiv> \<lparr>class_tag = ''Object'', class_name = ''Object''\<rparr>"

abbreviation user_class :: "string \<Rightarrow> jsclass" where
  "user_class c \<equiv> \<lparr>class_tag = ''Object'', class_name = c\<rparr>"

abbreviation builtin_class :: "string \<Rightarrow> jsclass" where
  "builtin_class c \<equiv> \<lparr>class_tag = c, class_name = c\<rparr>"

datatype jsval =
    JUndefined
  | JNull
  | JBool bool
  | JNum rat
  | JNaN
  | JInfinity bool
  | JStr string
  | JArray nat "jsval list"
  | JObject nat jsclass "(string \<times> jsval) list"
  | JFunction nat

definition js_typeof :: "jsval \<Rightarrow> string" where
  "js_typeof v =
     (case v of
        JUndefined \<Rightarrow> ''undefined''
      | JNull \<Rightarrow> ''object''
      | JBool _ \<Rightarrow> ''boolean''
      | JNum _ \<Rightarrow> ''number''
      | JNaN \<Rightarrow> ''number''
      | JInfinity _ \<Rightarrow> ''number''
      | JStr _ \<Rightarrow> ''string''
      | JArray _ _ \<Rightarrow> ''object''
      | JObject _ _ _ \<Rightarrow> ''object''
      | JFunction _ \<Rightarrow> ''function'')"

text \<open>\<open>if (v)\<close>: the falsy values are undefined, null, false, 0, NaN and the empty string.\<close>

definition truthy :: "jsval \<Rightarrow> bool" where
  "truthy v =
     (case v of
        JUndefined \<Rightarrow> False
      | JNull \<Rightarrow> False
      | JBool b \<Rightarrow> b
      | JNum q \<Rightarrow> q \<noteq> 0
      | JNaN \<Rightarrow> False
      | JStr s \<Rightarrow> s \<noteq> []
      | _ \<Rightarrow> True)"

text \<open>\<open>a === b\<close>: primitives by value (NaN equals nothing), references by identity.\<close>

definition strict_eq :: "jsval \<Rightarrow> jsval \<Rightarrow> bool" where
  "strict_eq a b =
     (case a of
        JUndefined \<Rightarrow> b = JUndefined
      | JNull \<Rightarrow> b = JNull
      | JBool x \<Rightarrow> b = JBool x
      | JNum x \<Rightarrow> b = JNum x
      | JNaN \<Rightarrow> False
      | JInfinity x \<Rightarrow> b = JInfinity x
      | JStr x \<Rightarrow> b = JStr x
      | JArray i _ \<Rightarrow> (case b of JArray j _ \<Rightarrow> i = j | _ \<Rightarrow> False)
      | JObject i _ _ \<Rightarrow> (case b of JObject j _ _ \<Rightarrow> i = j | _ \<Rightarrow> False)
      | JFunction i \<Rightarrow> b = JFunction i)"

text \<open>\<open>is.array\<close> of the \<open>is\<close> package is \<open>Array.isArray\<close>.\<close>

definition is_array :: "jsval \<Rightarrow> bool" where
  "is_array v = (case v of JArray _ _ \<Rightarrow> True | _ \<Rightarrow> False)"

text \<open>
  \<open>is.object(v)\<close> of the \<open>is\<close> package is
  \<open>Object.prototype.toString.call(v) === '[object Object]'\<close>: true of an object whose
  tag is \<open>Object\<close>, false of every other object, of every primitive (their tags are
  \<open>Undefined\<close>, \<open>Null\<close>, \<open>Boolean\<close>, \<open>Number\<close>, \<open>String\<close>), of an array and of a
  function.
\<close>

definition is_object :: "jsval \<Rightarrow> bool" where
  "is_object v = (case v of JObject _ c _ \<Rightarrow> class_tag c = ''Object'' | _ \<Rightarrow> False)"

text \<open>\<open>Array.prototype.indexOf\<close>: the first index whose element is \<open>===\<close> the value, or -1.\<close>

fun index_from :: "int \<Rightarrow> jsval list \<Rightarrow> jsval \<Rightarrow> int" where
  "index_from i [] v = -1"
| "index_from i (x # xs) v = (if strict_eq x v then i else index_from (i + 1) xs v)"

definition indexOf :: "jsval list \<Rightarrow> jsval \<Rightarrow> int" where
  "indexOf xs v = index_from 0 xs v"

section \<open>Strings and numbers\<close>

text \<open>
  The white space and the line terminators that \<open>trim\<close>, \<open>Number\<close> and \<open>parseInt\<close>
  strip, among the characters below 256: tab, line feed, vertical tab, form feed,
  carriage return, space and the no-break space U+00A0.
\<close>

definition is_ws :: "char \<Rightarrow> bool" where
  "is_ws c = ((of_char c :: nat) \<in> {9, 10, 11, 12, 13, 32, 160})"

definition trim_start :: "string \<Rightarrow> string" where
  "trim_start s = dropWhile is_ws s"

definition js_trim :: "string \<Rightarrow> string" where
  "js_trim s = rev (dropWhile is_ws (rev (dropWhile is_ws s)))"

definition digit_val :: "char \<Rightarrow> nat option" where
  "digit_val c = (let n = (of_char c :: nat) in
     if 48 \<le> n \<and> n \<le> 57 then Some (n - 48)
     else if 97 \<le> n \<and> n \<le> 102 then Some (n - 87)
     else if 65 \<le> n \<and> n \<le> 70 then Some (n - 55)
     else None)"

definition is_digit :: "nat \<Rightarrow> char \<Rightarrow> bool" where
  "is_digit radix c = (case digit_val c of None \<Rightarrow> False | Some d \<Rightarrow> d < radix)"

definition digits_value :: "nat \<Rightarrow> string \<Rightarrow> nat" where
  "digits_value radix ds = foldl (\<lambda>acc c. acc * radix + (case digit_val c of None \<Rightarrow> 0 | Some d \<Rightarrow> d)) 0 ds"

text \<open>
  A double overflows to an infinity when the magnitude reaches the midpoint between
  the largest double and \<open>2^1024\<close>.
\<close>

definition double_overflow :: "rat \<Rightarrow> bool" where
  "double_overflow q = (\<bar>q\<bar> \<ge> 2 ^ 1024 - 2 ^ 970)"

definition number_of :: "rat \<Rightarrow> jsval" where
  "number_of q = (if double_overflow q then JInfinity (q > 0) else JNum q)"

definition negate :: "jsval \<Rightarrow> jsval" where
  "negate v = (case v of JNum q \<Rightarrow> JNum (- q) | JInfinity b \<Rightarrow> JInfinity (\<not> b) | _ \<Rightarrow> v)"

text \<open>
  The exponent part of a decimal literal, \<open>[eE][+-]?digits\<close>, read to the end of the
  string: the exponent when the text is empty (0) or such a part, nothing otherwise.
\<close>

definition exponent_part :: "string \<Rightarrow> int option" where
  "exponent_part s =
     (case s of
        [] \<Rightarrow> Some 0
      | c # r \<Rightarrow>
          if c = CHR ''e'' \<or> c = CHR ''E'' then
            (let neg = (r \<noteq> [] \<and> hd r = CHR ''-'');
                 ds = (if r \<noteq> [] \<and> (hd r = CHR ''-'' \<or> hd r = CHR ''+'') then tl r else r)
             in if ds \<noteq> [] \<and> list_all (is_digit 10) ds
                then Some (if neg then - int (digits_value 10 ds) else int (digits_value 10 ds))
                else None)
          else None)"

definition scale10 :: "rat \<Rightarrow> int \<Rightarrow> rat" where
  "scale10 q e = (if e \<ge> 0 then q * 10 ^ nat e else q / 10 ^ nat (- e))"

text \<open>
  \<open>StrUnsignedDecimalLiteral\<close> of the \<open>StringToNumber\<close> grammar: \<open>Infinity\<close>, or digits
  with an optional fraction and exponent (\<open>12\<close>, \<open>12.\<close>, \<open>12.5\<close>, \<open>.5\<close>, \<open>1e3\<close>).
  Nothing when the whole string is not such a literal.
\<close>

definition unsigned_decimal :: "string \<Rightarrow> jsval option" where
  "unsigned_decimal s =
     (if s = ''Infinity'' then Some (JInfinity True)
      else
        (let ip = takeWhile (is_digit 10) s;
             r1 = dropWhile (is_digit 10) s;
             dot = (r1 \<noteq> [] \<and> hd r1 = CHR ''.'');
             fp = (if dot then takeWhile (is_digit 10) (tl r1) else []);
             r2 = (if dot then dropWhile (is_digit 10) (tl r1) else r1)
         in if ip = [] \<and> fp = [] then None
            else (case exponent_part r2 of
                    None \<Rightarrow> None
                  | Some e \<Rightarrow>
                      Some (number_of
                        (scale10 (of_nat (digits_value 10 (ip @ fp))) (e - int (length fp)))))))"

definition prefixed_literal :: "string \<Rightarrow> jsval option" where
  "prefixed_literal s =
     (case s of
        z # x # ds \<Rightarrow>
          (let radix = (if x = CHR ''x'' \<or> x = CHR ''X'' then 16
                        else if x = CHR ''o'' \<or> x = CHR ''O'' then 8
                        else if x = CHR ''b'' \<or> x = CHR ''B'' then 2 else 0)
           in if z = CHR ''0'' \<and> radix \<noteq> 0 \<and> ds \<noteq> [] \<and> list_all (is_digit radix) ds
              then Some (number_of (of_nat (digits_value radix ds)))
              else None)
      | _ \<Rightarrow> None)"

text \<open>\<open>Number(s)\<close> of a string: the empty or blank string is 0, a literal is its value,
  everything else is NaN.\<close>

definition string_to_number :: "string \<Rightarrow> jsval" where
  "string_to_number s =
     (let t = js_trim s in
      if t = [] then JNum 0
      else
        (case prefixed_literal t of
           Some v \<Rightarrow> v
         | None \<Rightarrow>
             (let neg = (hd t = CHR ''-'');
                  u = (if hd t = CHR ''-'' \<or> hd t = CHR ''+'' then tl t else t)
              in case unsigned_decimal u of
                   None \<Rightarrow> JNaN
                 | Some v \<Rightarrow> if neg then negate v else v)))"

text \<open>
  \<open>String(v)\<close>, as the messages and the property names of the code use it. A number
  prints in decimal notation when it is an integer below \<open>10^21\<close>; the decimal text of
  another number is not computed and stands as \<open>[number]\<close>. An object prints as
  \<open>Object.prototype.toString\<close> prints it (a class with a \<open>toString\<close> of its own prints
  what that returns, which the model does not know).
\<close>

fun nat_digits :: "nat \<Rightarrow> string" where
  "nat_digits n =
     (if n < 10 then [''0123456789'' ! n]
      else nat_digits (n div 10) @ [''0123456789'' ! (n mod 10)])"

declare nat_digits.simps [simp del]

definition is_integer :: "rat \<Rightarrow> bool" where
  "is_integer q = (of_int \<lfloor>q\<rfloor> = q)"

fun to_string :: "jsval \<Rightarrow> string"
  and join_elems :: "jsval list \<Rightarrow> string" where
  "to_string JUndefined = ''undefined''"
| "to_string JNull = ''null''"
| "to_string (JBool b) = (if b then ''true'' else ''false'')"
| "to_string (JNum q) =
     (if is_integer q \<and> \<bar>q\<bar> < 10 ^ 21
      then (if q < 0 then ''-'' else '''') @ nat_digits (nat \<bar>\<lfloor>q\<rfloor>\<bar>)
      else ''[number]'')"
| "to_string JNaN = ''NaN''"
| "to_string (JInfinity b) = (if b then ''Infinity'' else ''-Infinity'')"
| "to_string (JStr s) = s"
| "to_string (JArray _ xs) = join_elems xs"
| "to_string (JObject _ c _) = ''[object '' @ class_tag c @ '']''"
| "to_string (JFunction _) = ''function () {}''"
| "join_elems [] = ''''"
| "join_elems (x # xs) =
     (case x of JUndefined \<Rightarrow> '''' | JNull \<Rightarrow> '''' | _ \<Rightarrow> to_string x)
     @ (if xs = [] then '''' else '','' @ join_elems xs)"

text \<open>
  \<open>Number(xs)\<close> of an array is \<open>Number(xs.join(','))\<close>. The text of an empty array is
  empty (0); the text of two or more elements holds a comma and is no number; the text
  of one element is the text of that element (empty for undefined and null), and a
  number read back from its own text is that number.
\<close>

fun array_number :: "jsval list \<Rightarrow> jsval" where
  "array_number [] = JNum 0"
| "array_number [x] =
     (case x of
        JUndefined \<Rightarrow> JNum 0
      | JNull \<Rightarrow> JNum 0
      | JNum q \<Rightarrow> JNum q
      | JInfinity b \<Rightarrow> JInfinity b
      | JStr s \<Rightarrow> string_to_number s
      | JArray _ ys \<Rightarrow> array_number ys
      | _ \<Rightarrow> JNaN)"
| "array_number (x # y # zs) = JNaN"

text \<open>\<open>Number(v)\<close>, as the global \<open>isFinite\<close> applies it to its argument.\<close>

definition to_number :: "jsval \<Rightarrow> jsval" where
  "to_number v =
     (case v of
        JUndefined \<Rightarrow> JNaN
      | JNull \<Rightarrow> JNum 0
      | JBool b \<Rightarrow> JNum (if b then 1 else 0)
      | JStr s \<Rightarrow> string_to_number s
      | JArray _ xs \<Rightarrow> array_number xs
      | JObject _ _ _ \<Rightarrow> JNaN
      | JFunction _ \<Rightarrow> JNaN
      | _ \<Rightarrow> v)"

definition isFinite :: "jsval \<Rightarrow> bool" where
  "isFinite v = (case to_number v of JNum _ \<Rightarrow> True | _ \<Rightarrow> False)"

text \<open>
  \<open>parseInt(text, 10)\<close> on a string: leading white space, an optional sign, then the
  longest run of decimal digits; NaN when there is no digit. The rest of the string is
  ignored, so \<open>1.5\<close>, \<open>1e3\<close> and \<open>0x10\<close> read as 1, 1 and 0.
\<close>

definition parseInt_string :: "string \<Rightarrow> jsval" where
  "parseInt_string s =
     (let t = trim_start s;
          neg = (t \<noteq> [] \<and> hd t = CHR ''-'');
          u = (if t \<noteq> [] \<and> (hd t = CHR ''-'' \<or> hd t = CHR ''+'') then tl t else t);
          ds = takeWhile (is_digit 10) u
      in if ds = [] then JNaN
         else number_of (if neg then - of_nat (digits_value 10 ds) else of_nat (digits_value 10 ds)))"

text \<open>
  \<open>parseInt(n, 10)\<close> on a finite number reads the number's decimal text: the integer
  part when the text is in decimal notation (magnitudes from \<open>10^-6\<close> up to \<open>10^21\<close>, and
  zero), the first significant digit when it is in exponent notation.
\<close>

fun lead_digit :: "nat \<Rightarrow> nat" where
  "lead_digit n = (if n < 10 then n else lead_digit (n div 10))"

declare lead_digit.simps [simp del]

definition first_sig_digit :: "rat \<Rightarrow> nat" where
  "first_sig_digit q =
     (let a = nat (fst (quotient_of \<bar>q\<bar>)); b = nat (snd (quotient_of \<bar>q\<bar>))
      in lead_digit ((a * 10 ^ length (nat_digits b)) div b))"

definition num_to_int :: "rat \<Rightarrow> rat" where
  "num_to_int q =
     (if q = 0 then 0
      else if \<bar>q\<bar> \<ge> 10 ^ 21 \<or> \<bar>q\<bar> < 1 / 10 ^ 6
      then (if q < 0 then - of_nat (first_sig_digit q) else of_nat (first_sig_digit q))
      else (if q < 0 then - of_int \<lfloor>\<bar>q\<bar>\<rfloor> else of_int \<lfloor>q\<rfloor>))"

text \<open>
  \<open>parseInt(xs, 10)\<close> of an array reads \<open>xs.join(',')\<close>: the text of the first element,
  since the comma after it ends the digits.
\<close>

fun array_int :: "jsval list \<Rightarrow> jsval" where
  "array_int [] = JNaN"
| "array_int (x # xs) =
     (case x of
        JNum q \<Rightarrow> JNum (num_to_int q)
      | JStr s \<Rightarrow> parseInt_string s
      | JArray _ ys \<Rightarrow> array_int ys
      | _ \<Rightarrow> JNaN)"

definition parseInt10 :: "jsval \<Rightarrow> jsval" where
  "parseInt10 v =
     (case v of
        JNum q \<Rightarrow> JNum (num_to_int q)
      | JArray _ xs \<Rightarrow> array_int xs
      | _ \<Rightarrow> parseInt_string (to_string v))"

section \<open>The model: identifiers and keys\<close>

text \<open>
  \<^verbatim>\<open>function parseId(id) { return isFinite(id) ? parseInt(id, 10) : id; }\<close>
\<close>

definition parseId :: "jsval \<Rightarrow> jsval" where
  "parseId v = (if isFinite v then parseInt10 v else v)"

text \<open>
  What \<open>Model.key\<close> hands to the datastore's \<open>ds.key\<close>: the path, and the namespace
  when one is given. The path holds kinds (strings) and identifiers in turn.
\<close>

record key_desc =
  key_namespace :: "jsval option"
  key_path :: "jsval list"

datatype key_result = OneKey key_desc | ManyKeys "key_desc list"

definition absent :: "jsval \<Rightarrow> bool" where
  "absent v = (v = JUndefined \<or> v = JNull)"

definition getPath :: "string \<Rightarrow> jsval \<Rightarrow> jsval \<Rightarrow> jsval list" where
  "getPath entityKind v ancestors =
     (let path = (if absent v then [JStr entityKind] else [JStr entityKind, parseId v])
      in case ancestors of JArray _ anc \<Rightarrow> anc @ path | _ \<Rightarrow> path)"

definition getKey :: "string \<Rightarrow> jsval \<Rightarrow> jsval \<Rightarrow> jsval \<Rightarrow> key_desc" where
  "getKey entityKind v ancestors namespace =
     (if absent namespace
      then \<lparr>key_namespace = None, key_path = getPath entityKind v ancestors\<rparr>
      else \<lparr>key_namespace = Some namespace, key_path = getPath entityKind v ancestors\<rparr>)"

definition key :: "string \<Rightarrow> jsval \<Rightarrow> jsval \<Rightarrow> jsval \<Rightarrow> key_result" where
  "key entityKind ids ancestors namespace =
     (if absent ids then OneKey (getKey entityKind JNull ancestors namespace)
      else (case ids of
              JArray _ xs \<Rightarrow> ManyKeys (map (\<lambda>v. getKey entityKind v ancestors namespace) xs)
            | _ \<Rightarrow> OneKey (getKey entityKind ids ancestors namespace)))"

section \<open>Objects used as dictionaries\<close>

text \<open>
  The own enumerable properties of an object, in the order \<open>Object.keys\<close> lists them.
  \<open>hasOwnProperty\<close> looks at these only; \<open>delete obj[k]\<close> and \<open>obj[k] = v\<close> on an own
  or a new property change these only.
\<close>

type_synonym props = "(string \<times> jsval) list"

definition has_own :: "(string \<times> 'a) list \<Rightarrow> string \<Rightarrow> bool" where
  "has_own ps k = (k \<in> set (map fst ps))"

definition prop_get :: "props \<Rightarrow> string \<Rightarrow> jsval" where
  "prop_get ps k = (case map_of ps k of None \<Rightarrow> JUndefined | Some v \<Rightarrow> v)"

text \<open>
  An object literal \<open>{}\<close> inherits from \<open>Object.prototype\<close>. A read \<open>obj[k]\<close> that finds
  no own property finds the inherited member of that name, and an assignment
  \<open>obj['__proto__'] = o\<close> of an object runs the inherited setter: it replaces the
  prototype and adds no own property. A dictionary built on \<open>{}\<close> is therefore its own
  properties together with the object last installed as its prototype in that way.
\<close>

definition object_prototype_names :: "string list" where
  "object_prototype_names =
     [''constructor'', ''__defineGetter__'', ''__defineSetter__'', ''hasOwnProperty'',
      ''__lookupGetter__'', ''__lookupSetter__'', ''isPrototypeOf'', ''propertyIsEnumerable'',
      ''toString'', ''valueOf'', ''__proto__'', ''toLocaleString'']"

record 'v js_dict =
  own :: "(string \<times> 'v) list"
  proto :: "'v option"

definition empty_dict :: "'v js_dict" where
  "empty_dict = \<lparr>own = [], proto = None\<rparr>"

definition dict_has_own :: "'v js_dict \<Rightarrow> string \<Rightarrow> bool" where
  "dict_has_own d k = has_own (own d) k"

definition dict_set :: "'v js_dict \<Rightarrow> string \<Rightarrow> 'v \<Rightarrow> 'v js_dict" where
  "dict_set d k v =
     (if has_own (own d) k then d\<lparr>own := AList.update k v (own d)\<rparr>
      else if k = ''__proto__'' then d\<lparr>proto := Some v\<rparr>
      else d\<lparr>own := AList.update k v (own d)\<rparr>)"

definition dict_get :: "'v js_dict \<Rightarrow> string \<Rightarrow> 'v option" where
  "dict_get d k =
     (case map_of (own d) k of
        Some v \<Rightarrow> Some v
      | None \<Rightarrow> if k = ''__proto__'' then proto d else None)"

text \<open>
  \<open>obj.hasOwnProperty(k)\<close> calls the method that \<open>obj\<close> inherits from
  \<open>Object.prototype\<close>. An own property named \<open>hasOwnProperty\<close> hides it, and the call
  throws a \<open>TypeError\<close> when that property holds no function. The dictionaries of a
  schema hold descriptors, queues and handles, never a function. A descriptor or a
  transaction of the caller may hold a function there, which would be called instead;
  the model has no function to run and ends the call in the same way.
\<close>

definition not_a_function :: string where
  "not_a_function = ''TypeError: hasOwnProperty is not a function''"

definition hasOwnProperty :: "(string \<times> 'a) list \<Rightarrow> string \<Rightarrow> string + bool" where
  "hasOwnProperty ps k =
     (if has_own ps ''hasOwnProperty'' then Inl not_a_function else Inr (has_own ps k))"

section \<open>The schema (lib/schema.js)\<close>

text \<open>
  A field descriptor is an object \<open>{type?, required?, default?, values?, validate?,
  excludeFromIndexes?, read?, write?, optional?}\<close>: its own properties.
\<close>

type_synonym descriptor = props

text \<open>
  Modelled from the spec: the handle of a virtual field, an instance of the class of
  lib/virtualType.js (not among the sources). The spec gives it a name and lets a getter
  and a setter be attached; here it is its identity (the reference \<open>new VirtualType(name)\<close>
  returns) and its name.
\<close>

record virtual_type =
  vt_ref :: nat
  vt_name :: string

text \<open>The functions a call queue holds: the default middleware, or a function of the caller.\<close>

datatype hook_fn = ValidateMiddleware | UserFn nat

record hook_queue =
  pres :: "hook_fn list"
  post :: "hook_fn list"

record schema =
  paths :: "(string \<times> descriptor) list"
  virtuals :: "virtual_type js_dict"
  callQueue_model :: "hook_queue js_dict"
  callQueue_entity :: "hook_queue js_dict"
  options :: props

text \<open>
  \<^verbatim>\<open>const reserved = { ds:true, entityKey:true, ... , _pre:true, _post:true };\<close>
  The test \<open>if (reserved[k])\<close> reads the object literal \<open>reserved\<close>, so it also finds
  the members inherited from \<open>Object.prototype\<close> (functions, and the prototype itself
  under \<open>__proto__\<close>), all of them truthy.
\<close>

definition reserved :: "string list" where
  "reserved =
     [''ds'', ''entityKey'', ''emit'', ''on'', ''once'', ''listeners'', ''removeListener'',
      ''errors'', ''init'', ''isModified'', ''isNew'', ''get'', ''modelName'', ''save'',
      ''schema'', ''set'', ''toObject'', ''validate'', ''pre'', ''post'', ''_pre'', ''_post'']"

definition reserved_lookup :: "string \<Rightarrow> bool" where
  "reserved_lookup k = (k \<in> set reserved \<or> k \<in> set object_prototype_names)"

definition pathname_error :: "string \<Rightarrow> string" where
  "pathname_error k = [CHR 0x60] @ k @ [CHR 0x60] @ '' may not be used as a schema pathname''"

text \<open>\<^verbatim>\<open>const IS_ENTITY_HOOK = { save: true };\<close> read as \<open>IS_ENTITY_HOOK[hook]\<close>.\<close>

definition is_entity_hook :: "string \<Rightarrow> bool" where
  "is_entity_hook hook = (hook = ''save'' \<or> hook \<in> set object_prototype_names)"

text \<open>
  \<open>queue[hook].pres.push(fn)\<close> after \<open>queue[hook]\<close> was created when
  \<open>queue.hasOwnProperty(hook)\<close> was false.
\<close>

definition ensure_queue :: "hook_queue js_dict \<Rightarrow> string \<Rightarrow> string + hook_queue js_dict" where
  "ensure_queue q hook =
     (case hasOwnProperty (own q) hook of
        Inl m \<Rightarrow> Inl m
      | Inr there \<Rightarrow> Inr (if there then q else dict_set q hook \<lparr>pres = [], post = []\<rparr>))"

definition push_pre :: "hook_queue js_dict \<Rightarrow> string \<Rightarrow> hook_fn \<Rightarrow> string + hook_queue js_dict" where
  "push_pre q hook fn =
     (case ensure_queue q hook of
        Inl m \<Rightarrow> Inl m
      | Inr q1 \<Rightarrow>
          (case dict_get q1 hook of
             None \<Rightarrow> Inr q1
           | Some hq \<Rightarrow> Inr (dict_set q1 hook (hq\<lparr>pres := pres hq @ [fn]\<rparr>))))"

definition push_post :: "hook_queue js_dict \<Rightarrow> string \<Rightarrow> hook_fn \<Rightarrow> string + hook_queue js_dict" where
  "push_post q hook fn =
     (case ensure_queue q hook of
        Inl m \<Rightarrow> Inl m
      | Inr q1 \<Rightarrow>
          (case dict_get q1 hook of
             None \<Rightarrow> Inr q1
           | Some hq \<Rightarrow> Inr (dict_set q1 hook (hq\<lparr>post := post hq @ [fn]\<rparr>))))"

text \<open>\<open>pre(hook, fn)\<close> and \<open>post(hook, fn)\<close>: the schema after the call, or what it throws.\<close>

definition pre :: "schema \<Rightarrow> string \<Rightarrow> hook_fn \<Rightarrow> string + schema" where
  "pre s hook fn =
     (if is_entity_hook hook
      then (case push_pre (callQueue_entity s) hook fn of
              Inl m \<Rightarrow> Inl m
            | Inr q \<Rightarrow> Inr (s\<lparr>callQueue_entity := q\<rparr>))
      else (case push_pre (callQueue_model s) hook fn of
              Inl m \<Rightarrow> Inl m
            | Inr q \<Rightarrow> Inr (s\<lparr>callQueue_model := q\<rparr>)))"

definition post_hook :: "schema \<Rightarrow> string \<Rightarrow> hook_fn \<Rightarrow> string + schema" where
  "post_hook s hook fn =
     (if is_entity_hook hook
      then (case push_post (callQueue_entity s) hook fn of
              Inl m \<Rightarrow> Inl m
            | Inr q \<Rightarrow> Inr (s\<lparr>callQueue_entity := q\<rparr>))
      else (case push_post (callQueue_model s) hook fn of
              Inl m \<Rightarrow> Inl m
            | Inr q \<Rightarrow> Inr (s\<lparr>callQueue_model := q\<rparr>)))"

text \<open>
  \<open>defaultOptions\<close>: \<open>extend(true, {}, optionsDefault, options)\<close>. The new object
  first gets the defaults \<open>validateBeforeSave: true\<close> and \<open>queries: {readAll: false}\<close>;
  then, in their order, every option of the caller that is not undefined replaces the
  value under its name or is added at the end, and a \<open>queries\<close> of the caller that is
  an object literal is merged into the default one, entry by entry.
\<close>

definition extend_into :: "props \<Rightarrow> props \<Rightarrow> props" where
  "extend_into target source =
     foldl (\<lambda>t (k, v). if v = JUndefined then t else AList.update k v t) target source"

definition extend_option :: "props \<Rightarrow> string \<times> jsval \<Rightarrow> props" where
  "extend_option target kv =
     (case snd kv of
        JUndefined \<Rightarrow> target
      | JObject i c qs \<Rightarrow>
          if fst kv = ''queries'' \<and> c = object_class
          then AList.update ''queries''
                 (JObject 0 object_class
                    (extend_into
                       (case prop_get target ''queries'' of JObject _ _ ds \<Rightarrow> ds | _ \<Rightarrow> []) qs))
                 target
          else AList.update (fst kv) (JObject i c qs) target
      | v \<Rightarrow> AList.update (fst kv) v target)"

definition defaultOptions :: "props \<Rightarrow> props" where
  "defaultOptions opts =
     foldl extend_option
       [(''validateBeforeSave'', JBool True),
        (''queries'', JObject 0 object_class [(''readAll'', JBool False)])]
       opts"

text \<open>
  The constructor's loop over \<open>Object.keys(obj)\<close>: the first reserved name throws, every
  other descriptor is stored with \<open>self.paths[k] = obj[k]\<close>.
\<close>

fun declare_paths ::
  "(string \<times> descriptor) list \<Rightarrow> (string \<times> descriptor) list \<Rightarrow> string + (string \<times> descriptor) list" where
  "declare_paths ps [] = Inr ps"
| "declare_paths ps ((k, d) # rest) =
     (if reserved_lookup k then Inl (pathname_error k)
      else declare_paths (AList.update k d ps) rest)"

definition Schema :: "(string \<times> descriptor) list \<Rightarrow> props \<Rightarrow> string + schema" where
  "Schema obj opts =
     (case declare_paths [] obj of
        Inl e \<Rightarrow> Inl e
      | Inr ps \<Rightarrow>
          pre \<lparr>paths = ps, virtuals = empty_dict, callQueue_model = empty_dict,
                callQueue_entity = empty_dict, options = defaultOptions opts\<rparr>
            ''save'' ValidateMiddleware)"

text \<open>
  \<open>path(path, obj)\<close>: with \<open>obj\<close> undefined it reads \<open>this.paths[path]\<close>, own or
  inherited; otherwise it throws on a reserved name and stores the descriptor.
\<close>

datatype path_result =
    PathDescriptor descriptor
  | PathInherited string
  | PathUndefined
  | PathThis schema

definition path :: "schema \<Rightarrow> string \<Rightarrow> descriptor option \<Rightarrow> string + path_result" where
  "path s p obj =
     (case obj of
        None \<Rightarrow>
          (case map_of (paths s) p of
             Some d \<Rightarrow> Inr (PathDescriptor d)
           | None \<Rightarrow> if p \<in> set object_prototype_names then Inr (PathInherited p)
                     else Inr PathUndefined)
      | Some d \<Rightarrow>
          if reserved_lookup p then Inl (pathname_error p)
          else Inr (PathThis (s\<lparr>paths := AList.update p d (paths s)\<rparr>)))"

text \<open>
  \<open>virtual(name)\<close>. The state besides the schema is the next unused reference, which
  \<open>new VirtualType(name)\<close> takes. The result is the handle returned and the new state,
  or what the call throws.
\<close>

definition virtual ::
  "string \<Rightarrow> schema \<times> nat \<Rightarrow> string + (virtual_type option \<times> (schema \<times> nat))" where
  "virtual name st =
     (let s = fst st; fresh = snd st in
      case hasOwnProperty (own (virtuals s)) name of
        Inl m \<Rightarrow> Inl m
      | Inr declared \<Rightarrow>
          if declared then Inr (dict_get (virtuals s) name, st)
          else
            (let vs = dict_set (virtuals s) name \<lparr>vt_ref = fresh, vt_name = name\<rparr>
             in Inr (dict_get vs name, (s\<lparr>virtuals := vs\<rparr>, Suc fresh))))"

section \<open>The model (lib/model.js): sanitize\<close>

text \<open>
  \<^verbatim>\<open>Object.keys(data).forEach((k) => {
      if (!this.schema.paths.hasOwnProperty(k) || this.schema.paths[k].write === false) {
          delete data[k];
      } else if (data[k] === 'null') { data[k] = null; }
  });\<close>
  One round of the loop, on the properties of \<open>data\<close>, where \<open>hasOwnProperty\<close> is
  the inherited method.
\<close>

definition sanitize_key :: "schema \<Rightarrow> props \<Rightarrow> string \<Rightarrow> props" where
  "sanitize_key s data k =
     (case map_of (paths s) k of
        None \<Rightarrow> AList.delete k data
      | Some d \<Rightarrow>
          if strict_eq (prop_get d ''write'') (JBool False) then AList.delete k data
          else if strict_eq (prop_get data k) (JStr ''null'') then AList.update k JNull data
          else data)"

text \<open>
  \<open>sanitize(data)\<close>: null unless \<open>is.object(data)\<close>; otherwise the object passed in,
  after the loop over the keys it had on entry. The loop calls
  \<open>this.schema.paths.hasOwnProperty\<close> at its first key: when the paths hide that
  method, it throws there, before any change.
\<close>

definition sanitize :: "schema \<Rightarrow> jsval \<Rightarrow> string + jsval" where
  "sanitize s data =
     (case data of
        JObject i c ps \<Rightarrow>
          if is_object data
          then (if ps \<noteq> [] \<and> has_own (paths s) ''hasOwnProperty'' then Inl not_a_function
                else Inr (JObject i c (foldl (sanitize_key s) ps (map fst ps))))
          else Inr JNull
      | _ \<Rightarrow> Inr JNull)"

section \<open>The model: validate\<close>

text \<open>
  An entity instance: the fields of lib/entity.js (not among the sources) that the
  methods of the model read and write.
\<close>

record entity =
  entityKind :: string
  entityData :: props
  entityKey :: key_desc
  excludeFromIndexes :: "string list"
  entity_schema :: schema

text \<open>The error objects \<open>validate\<close> stores, each with its message.\<close>

datatype verror =
    PropertiesError string
  | DateTimeError string
  | ValidationError string
  | ValidatorError "string option" string
  | ValueError string

text \<open>
  What \<open>validate\<close> calls outside the repository: the \<open>validator\<close> package, read as
  \<open>validator[name]\<close> (nothing when it has no function of that name), and
  \<open>moment(value).isValid()\<close>.
\<close>

record validate_env =
  validator :: "string \<Rightarrow> (jsval \<Rightarrow> bool) option"
  moment_isValid :: "string \<Rightarrow> bool"

definition valueIsEmpty :: "jsval \<Rightarrow> bool" where
  "valueIsEmpty v =
     (case v of JNull \<Rightarrow> True | JUndefined \<Rightarrow> True | JStr x \<Rightarrow> length (js_trim x) = 0
      | _ \<Rightarrow> False)"

definition isInt :: "jsval \<Rightarrow> bool" where
  "isInt n = (case n of JNum q \<Rightarrow> is_integer q | _ \<Rightarrow> False)"

definition isFloat :: "jsval \<Rightarrow> bool" where
  "isFloat n = (case n of JNum q \<Rightarrow> \<not> is_integer q | JInfinity _ \<Rightarrow> True | _ \<Rightarrow> False)"

text \<open>
  \<open>value.constructor.name\<close> of a value that is neither null nor undefined: of an
  object, the name its class has.
\<close>

definition constructor_name :: "jsval \<Rightarrow> string" where
  "constructor_name v =
     (case v of
        JBool _ \<Rightarrow> ''Boolean''
      | JNum _ \<Rightarrow> ''Number''
      | JNaN \<Rightarrow> ''Number''
      | JInfinity _ \<Rightarrow> ''Number''
      | JStr _ \<Rightarrow> ''String''
      | JArray _ _ \<Rightarrow> ''Array''
      | JObject _ c _ \<Rightarrow> class_name c
      | JFunction _ \<Rightarrow> ''Function''
      | _ \<Rightarrow> [])"

text \<open>
  \<open>isNaN(parseInt(x))\<close> and \<open>isNaN(parseFloat(x))\<close>, as the checks of a wrapped \<open>Int\<close>
  and \<open>Double\<close> use them: whether the text of \<open>x\<close> starts, after white space and a sign,
  with a digit (for \<open>parseInt\<close> without a radix a hexadecimal digit after \<open>0x\<close>; for
  \<open>parseFloat\<close> also \<open>Infinity\<close> or a dot and a digit).
\<close>

definition unsigned_text :: "string \<Rightarrow> string" where
  "unsigned_text s =
     (let t = trim_start s in
      if t \<noteq> [] \<and> (hd t = CHR ''-'' \<or> hd t = CHR ''+'') then tl t else t)"

definition parseInt_isNaN :: "jsval \<Rightarrow> bool" where
  "parseInt_isNaN x =
     (case x of
        JNum _ \<Rightarrow> False
      | _ \<Rightarrow>
        (case unsigned_text (to_string x) of
           [] \<Rightarrow> True
         | [c] \<Rightarrow> \<not> is_digit 10 c
         | c # c' # r \<Rightarrow>
             if c = CHR ''0'' \<and> (c' = CHR ''x'' \<or> c' = CHR ''X'')
             then (case r of [] \<Rightarrow> True | h # _ \<Rightarrow> \<not> is_digit 16 h)
             else \<not> is_digit 10 c))"

definition parseFloat_isNaN :: "jsval \<Rightarrow> bool" where
  "parseFloat_isNaN x =
     (case x of
        JNum _ \<Rightarrow> False
      | _ \<Rightarrow>
        (let u = unsigned_text (to_string x) in
         if take 8 u = ''Infinity'' then False
         else (case u of
                 [] \<Rightarrow> True
               | [c] \<Rightarrow> \<not> is_digit 10 c
               | c # c' # _ \<Rightarrow> \<not> (is_digit 10 c \<or> (c = CHR ''.'' \<and> is_digit 10 c')))))"

text \<open>
  The pattern of \<open>validateDateTime\<close>,
  \<^verbatim>\<open>/\d{4}-\d{2}-\d{2}([ ,T])?(\d{2}:\d{2}:\d{2})?(\.\d{1,3})?/\<close>, is not anchored and
  everything after the date is optional: a string matches when it holds four digits, a
  dash, two digits, a dash and two digits in a row.
\<close>

definition date_here :: "string \<Rightarrow> bool" where
  "date_here s =
     (case s of
        a # b # c # d # e # f # g # h # i # j # _ \<Rightarrow>
          list_all (is_digit 10) [a, b, c, d, f, g, i, j] \<and> e = CHR ''-'' \<and> h = CHR ''-''
      | _ \<Rightarrow> False)"

fun date_pattern :: "string \<Rightarrow> bool" where
  "date_pattern [] = False"
| "date_pattern (c # cs) = (date_here (c # cs) \<or> date_pattern cs)"

definition validateDateTime :: "validate_env \<Rightarrow> jsval \<Rightarrow> string \<Rightarrow> verror option" where
  "validateDateTime env v k =
     (if constructor_name v = ''Date'' then None
      else (case v of
              JStr x \<Rightarrow>
                if date_pattern x \<and> moment_isValid env x then None
                else Some (DateTimeError (''Wrong date format for '' @ k))
            | _ \<Rightarrow> Some (DateTimeError (''Wrong date format for '' @ k))))"

text \<open>The branches that set \<open>typeValid\<close> for a type other than \<open>datetime\<close>.\<close>

definition typeValid :: "jsval \<Rightarrow> jsval \<Rightarrow> bool" where
  "typeValid ty v =
     (if ty = JStr ''array'' then is_array v
      else if ty = JStr ''int'' then
        (if constructor_name v = ''Int''
         then (case v of JObject _ _ ps \<Rightarrow> \<not> parseInt_isNaN (prop_get ps ''value'') | _ \<Rightarrow> False)
         else isInt v)
      else if ty = JStr ''double'' then
        (if constructor_name v = ''Double''
         then (case v of JObject _ _ ps \<Rightarrow> \<not> parseFloat_isNaN (prop_get ps ''value'') | _ \<Rightarrow> False)
         else (isFloat v \<or> isInt v))
      else if ty = JStr ''buffer'' then constructor_name v = ''Buffer''
      else if ty = JStr ''geoPoint'' then constructor_name v = ''GeoPoint''
      else ty = JStr (js_typeof v))"

text \<open>
  \<open>errors[k] = e\<close> on the object literal \<open>errors\<close>: an own property, except under the
  name \<open>__proto__\<close>, where the assignment replaces the prototype and \<open>Object.keys(errors)\<close>
  stays as it was.
\<close>

definition errors_set :: "(string \<times> verror) list \<Rightarrow> string \<Rightarrow> verror \<Rightarrow> (string \<times> verror) list" where
  "errors_set errs k e = (if k = ''__proto__'' then errs else AList.update k e errs)"

definition required_error :: "string \<Rightarrow> verror" where
  "required_error k = ValidatorError (Some ''Required'') (''Property {'' @ k @ ''} is required'')"

type_synonym errors = "(string \<times> verror) list"

type_synonym vstate = "props \<times> errors"

text \<open>
  The checks that the loop of \<open>validate\<close> makes for one key \<open>k\<close>, in the order of the
  source, each on the errors so far.

  \<^verbatim>\<open>if (!skip && !schemaHasProperty) { errors.properties = new Error(...); }\<close>
\<close>

definition check_properties :: "string \<Rightarrow> string \<Rightarrow> bool \<Rightarrow> bool \<Rightarrow> errors \<Rightarrow> errors" where
  "check_properties kind k skip schemaHasProperty errs =
     (if \<not> skip \<and> \<not> schemaHasProperty
      then errors_set errs ''properties''
             (PropertiesError (''Property not allowed {'' @ k @ ''} for '' @ kind @ '' Entity''))
      else errs)"

text \<open>
  \<^verbatim>\<open>if (!skip && schemaHasProperty && !isValueEmpty && schema.paths[k].hasOwnProperty('type'))\<close>:
  a \<open>datetime\<close> that \<open>validateDateTime\<close> refuses is stored as \<open>errors.datetime\<close>, a value
  of another type that is not \<open>typeValid\<close> as \<open>errors[k]\<close>.
\<close>

definition check_type ::
  "validate_env \<Rightarrow> string \<Rightarrow> bool \<Rightarrow> bool \<Rightarrow> bool \<Rightarrow> descriptor \<Rightarrow> jsval \<Rightarrow> errors \<Rightarrow> errors" where
  "check_type env k skip schemaHasProperty isValueEmpty d propertyValue errs =
     (if \<not> skip \<and> schemaHasProperty \<and> \<not> isValueEmpty \<and> has_own d ''type''
      then (if prop_get d ''type'' = JStr ''datetime''
            then (case validateDateTime env propertyValue k of
                    None \<Rightarrow> errs
                  | Some x \<Rightarrow> errors_set errs ''datetime'' x)
            else if typeValid (prop_get d ''type'') propertyValue then errs
            else errors_set errs k (ValidationError (''Data type error for '' @ k)))
      else errs)"

text \<open>
  \<^verbatim>\<open>isRequired = schemaHasProperty && schema.paths[k].hasOwnProperty('required')
                 && schema.paths[k].required === true;
  if (!skip && isRequired && isValueEmpty) { errors[k] = new GstoreError.ValidatorError({
      errorName: 'Required', message: 'Property {' + k + '} is required' }); }\<close>
\<close>

definition isRequired :: "bool \<Rightarrow> descriptor \<Rightarrow> bool" where
  "isRequired schemaHasProperty d =
     (schemaHasProperty \<and> has_own d ''required'' \<and> strict_eq (prop_get d ''required'') (JBool True))"

definition check_required :: "string \<Rightarrow> bool \<Rightarrow> bool \<Rightarrow> bool \<Rightarrow> errors \<Rightarrow> errors" where
  "check_required k skip required isValueEmpty errs =
     (if \<not> skip \<and> required \<and> isValueEmpty then errors_set errs k (required_error k) else errs)"

text \<open>
  \<^verbatim>\<open>if (!skip && schemaHasProperty && schema.paths[k].hasOwnProperty('validate')
      && self.entityData[k] && self.entityData[k] !== '' && self.entityData[k] !== null) {
      if (!validator[schema.paths[k].validate](self.entityData[k])) { errors[k] = ... } }\<close>
  A rule that the \<open>validator\<close> package does not have throws a \<open>TypeError\<close>.
\<close>

definition check_format ::
  "validate_env \<Rightarrow> string \<Rightarrow> bool \<Rightarrow> bool \<Rightarrow> descriptor \<Rightarrow> jsval \<Rightarrow> errors \<Rightarrow> string + errors" where
  "check_format env k skip schemaHasProperty d cur errs =
     (if \<not> skip \<and> schemaHasProperty \<and> has_own d ''validate'' \<and> truthy cur
      then (case validator env (to_string (prop_get d ''validate'')) of
              None \<Rightarrow> Inl ''TypeError: validator[...] is not a function''
            | Some f \<Rightarrow>
                if f cur then Inr errs
                else Inr (errors_set errs k
                            (ValidatorError None (''Wrong format for property {'' @ k @ ''}''))))
      else Inr errs)"

text \<open>
  \<open>String.prototype.indexOf(text) >= 0\<close>: the text occurs in the string.
\<close>

fun starts_with :: "string \<Rightarrow> string \<Rightarrow> bool" where
  "starts_with s [] = True"
| "starts_with [] (c # t) = False"
| "starts_with (a # s) (c # t) = (a = c \<and> starts_with s t)"

fun contains :: "string \<Rightarrow> string \<Rightarrow> bool" where
  "contains [] t = (t = [])"
| "contains (a # s) t = (starts_with (a # s) t \<or> contains s t)"

text \<open>
  \<^verbatim>\<open>if (!skip && schemaHasProperty && schema.paths[k].hasOwnProperty('values')
      && self.entityData[k] !== '') {
      if (schema.paths[k].values.indexOf(self.entityData[k]) < 0) { errors[k] = new Error(...); } }\<close>
  An array looks the value up with \<open>===\<close>, a string looks the text of the value up
  in itself. A \<open>values\<close> of another kind has no \<open>indexOf\<close> (an object has none unless
  it defines one, which the model does not know of), and the call throws a \<open>TypeError\<close>.
\<close>

definition check_values ::
  "string \<Rightarrow> bool \<Rightarrow> bool \<Rightarrow> descriptor \<Rightarrow> jsval \<Rightarrow> errors \<Rightarrow> string + errors" where
  "check_values k skip schemaHasProperty d cur errs =
     (if \<not> skip \<and> schemaHasProperty \<and> has_own d ''values'' \<and> cur \<noteq> JStr []
      then (case prop_get d ''values'' of
              JArray _ vs \<Rightarrow>
                if indexOf vs cur < 0
                then Inr (errors_set errs k
                            (ValueError (''Value not allowed for '' @ k
                               @ ''. It must be in the range: '' @ join_elems vs)))
                else Inr errs
            | JStr x \<Rightarrow>
                if contains x (to_string cur) then Inr errs
                else Inr (errors_set errs k
                            (ValueError (''Value not allowed for '' @ k
                               @ ''. It must be in the range: '' @ x)))
            | _ \<Rightarrow> Inl ''TypeError: values.indexOf is not a function'')
      else Inr errs)"

text \<open>
  One round of the loop of \<open>validate\<close> over \<open>Object.keys(this.entityData)\<close>, on the
  entity data and the errors so far, where every \<open>hasOwnProperty\<close> is the inherited
  method: a key that names a virtual is deleted from the data and skipped; an
  undeclared key is skipped when \<open>options.explicitOnly === false\<close>.
\<close>

definition validate_round ::
  "validate_env \<Rightarrow> schema \<Rightarrow> string \<Rightarrow> string \<Rightarrow> vstate \<Rightarrow> string + vstate" where
  "validate_round env s kind k st =
     (let schemaHasProperty = has_own (paths s) k;
          d = (case map_of (paths s) k of None \<Rightarrow> [] | Some d \<Rightarrow> d);
          raw = prop_get (fst st) k;
          isValueEmpty = valueIsEmpty raw;
          propertyValue = (case raw of JStr x \<Rightarrow> JStr (js_trim x) | _ \<Rightarrow> raw);
          isVirtual = dict_has_own (virtuals s) k;
          data1 = (if isVirtual then AList.delete k (fst st) else fst st);
          skip = (isVirtual \<or>
                  (\<not> schemaHasProperty \<and> strict_eq (prop_get (options s) ''explicitOnly'') (JBool False)));
          errs1 = check_properties kind k skip schemaHasProperty (snd st);
          errs2 = check_type env k skip schemaHasProperty isValueEmpty d propertyValue errs1;
          errs3 = check_required k skip (isRequired schemaHasProperty d) isValueEmpty errs2;
          cur = prop_get data1 k
      in case check_format env k skip schemaHasProperty d cur errs3 of
           Inl m \<Rightarrow> Inl m
         | Inr errs4 \<Rightarrow>
             (case check_values k skip schemaHasProperty d cur errs4 of
                Inl m \<Rightarrow> Inl m
              | Inr errs5 \<Rightarrow> Inr (data1, errs5)))"

text \<open>
  The round calls \<open>schema.paths.hasOwnProperty(k)\<close>, then
  \<open>schema.virtuals.hasOwnProperty(k)\<close>, and for a declared key
  \<open>schema.paths[k].hasOwnProperty\<close> (for \<open>required\<close> in every case), all of them
  before the checks of the format and the values: when one of these objects hides the
  method, the round throws there, and \<open>validate\<close> with it. What it throws leaves no
  payload.
\<close>

definition hides_hasOwnProperty :: "schema \<Rightarrow> string \<Rightarrow> bool" where
  "hides_hasOwnProperty s k =
     (has_own (paths s) ''hasOwnProperty'' \<or> dict_has_own (virtuals s) ''hasOwnProperty'' \<or>
      (case map_of (paths s) k of None \<Rightarrow> False | Some d \<Rightarrow> has_own d ''hasOwnProperty''))"

definition validate_key ::
  "validate_env \<Rightarrow> schema \<Rightarrow> string \<Rightarrow> string \<Rightarrow> vstate \<Rightarrow> string + vstate" where
  "validate_key env s kind k st =
     (if hides_hasOwnProperty s k then Inl not_a_function else validate_round env s kind k st)"

fun validate_keys ::
  "validate_env \<Rightarrow> schema \<Rightarrow> string \<Rightarrow> string list \<Rightarrow> vstate \<Rightarrow> string + vstate" where
  "validate_keys env s kind [] st = Inr st"
| "validate_keys env s kind (k # ks) st =
     (case validate_key env s kind k st of
        Inl e \<Rightarrow> Inl e
      | Inr st' \<Rightarrow> validate_keys env s kind ks st')"

text \<open>
  The payload of \<open>validate\<close>, \<open>{success: true}\<close> or \<open>{success: false, errors: errors}\<close>,
  together with the entity as the call leaves it.
\<close>

datatype validation = Success | Failure "(string \<times> verror) list"

definition validate :: "validate_env \<Rightarrow> entity \<Rightarrow> string + (validation \<times> entity)" where
  "validate env this =
     (case validate_keys env (entity_schema this) (entityKind this)
             (map fst (entityData this)) (entityData this, []) of
        Inl e \<Rightarrow> Inl e
      | Inr st \<Rightarrow>
          Inr (if length (snd st) > 0 then Failure (snd st) else Success,
               this\<lparr>entityData := fst st\<rparr>))"

section \<open>The model: save\<close>

text \<open>The calls issued to the datastore and to a transaction, in the order they are made.\<close>

datatype event =
    DsSave key_desc jsval
  | TxSave key_desc jsval
  | TxAddPostHook
  | TxRun
  | TxGet key_result
  | TxCommit
  | TxRollback
  | DsDelete key_result
  | TxDelete key_result
  | ExecPre nat key_result
  | ExecPost nat key_result

text \<open>
  An error value as the callbacks pass it on: the 404 object literal with its message, an
  error object of \<open>validate\<close>, a value that came from the datastore, or a thrown
  \<open>Error\<close>/\<open>TypeError\<close> with its message.
\<close>

datatype err =
    Err404 string
  | ErrValidation verror
  | ErrValue jsval
  | ErrThrown string

text \<open>
  How a call ends: it throws, it calls the callback with an error, or it calls the
  callback with null and a result. \<open>NoCallback\<close> is a promise chain that rejects where no
  handler is attached, so that the callback is never called.
\<close>

datatype 'a outcome = Threw string | CbError err | CbOk 'a | NoCallback

text \<open>
  What the model calls outside the sources: the serializer's \<open>toDatastore\<close>, whether
  \<open>ds.save(entity)\<close> rejects (and with what), \<open>validator\<close> and \<open>moment\<close> as above, and
  whether a pre-hook of the caller rejects (and with what).
\<close>

record env =
  toDatastore :: "props \<Rightarrow> string list \<Rightarrow> jsval"
  ds_save_error :: "key_desc \<Rightarrow> jsval \<Rightarrow> jsval option"
  venv :: validate_env
  user_pre_error :: "nat \<Rightarrow> entity \<Rightarrow> jsval option"

definition is_primitive :: "jsval \<Rightarrow> bool" where
  "is_primitive v =
     (case v of JArray _ _ \<Rightarrow> False | JObject _ _ _ \<Rightarrow> False | JFunction _ \<Rightarrow> False | _ \<Rightarrow> True)"

text \<open>\<open>is.object(transaction) && Object.keys(transaction).length === 0\<close>\<close>

definition empty_object :: "jsval \<Rightarrow> bool" where
  "empty_object v = (case v of JObject _ _ ps \<Rightarrow> is_object v \<and> length ps = 0 | _ \<Rightarrow> False)"

text \<open>\<open>extend(saveOptions, options); ... info = {op: saveOptions.op}\<close>\<close>

definition save_op :: "jsval \<Rightarrow> jsval" where
  "save_op opts =
     (case opts of
        JObject _ _ ps \<Rightarrow>
          (case map_of ps ''op'' of
             None \<Rightarrow> JStr ''save''
           | Some v \<Rightarrow> if v = JUndefined then JStr ''save'' else v)
      | _ \<Rightarrow> JStr ''save'')"

text \<open>
  \<open>hooksTransaction(transaction)\<close>, called with a truthy transaction:
  \<^verbatim>\<open>if (!transaction.hasOwnProperty('hooks')) { transaction.hooks = { post: [] }; ... }\<close>
  What it throws, if it throws: under \<open>'use strict'\<close> the assignment to a property of a
  primitive is a \<open>TypeError\<close>, and so is the call of a \<open>hasOwnProperty\<close> that the
  transaction hides.
\<close>

definition hooksTransaction :: "jsval \<Rightarrow> string option" where
  "hooksTransaction transaction =
     (if is_primitive transaction then Some ''TypeError: Cannot create property hooks''
      else (case transaction of
              JObject _ _ ps \<Rightarrow> if has_own ps ''hasOwnProperty'' then Some not_a_function else None
            | _ \<Rightarrow> None))"

text \<open>
  The body of \<open>save(transaction, options, cb)\<close>, with \<open>cb\<close> a function (the method is
  exported through \<open>utils.promisify\<close>, which supplies it) and \<open>now\<close> the value that
  \<open>new Date()\<close> gives at the call. The result is the entity as the call leaves it, the
  calls it made, and how it ended (on success with \<open>info.op\<close>). An empty object literal
  as the transaction is replaced by null; \<open>hooksTransaction\<close> runs first when the
  transaction is truthy.
\<close>

definition save :: "env \<Rightarrow> jsval \<Rightarrow> entity \<Rightarrow> jsval \<Rightarrow> jsval \<Rightarrow> entity \<times> event list \<times> jsval outcome" where
  "save e now this transaction opts =
     (let tx = (if empty_object transaction then JNull else transaction) in
      case (if truthy tx then hooksTransaction tx else None) of
        Some m \<Rightarrow> (this, [], Threw m)
      | None \<Rightarrow>
          (case hasOwnProperty (paths (entity_schema this)) ''modifiedOn'' of
             Inl m \<Rightarrow> (this, [], Threw m)
           | Inr declared \<Rightarrow>
               (let data = (if declared then AList.update ''modifiedOn'' now (entityData this)
                            else entityData this);
                    this' = this\<lparr>entityData := data\<rparr>;
                    stored = toDatastore e data (excludeFromIndexes this)
                in if \<not> truthy tx
                   then (case ds_save_error e (entityKey this) stored of
                           None \<Rightarrow> (this', [DsSave (entityKey this) stored], CbOk (save_op opts))
                         | Some x \<Rightarrow>
                             (this', [DsSave (entityKey this) stored], CbError (ErrValue x)))
                   else if constructor_name tx \<noteq> ''Transaction''
                   then (this', [], Threw ''Transaction needs to be a gcloud Transaction'')
                   else (this', [TxSave (entityKey this) stored, TxAddPostHook],
                         CbOk (save_op opts)))))"

text \<open>
  Modelled from the spec: the constructor of lib/entity.js, as \<open>__model(data, null, null,
  null, key)\<close> calls it. The spec has the entity data "created in memory from
  user-supplied partial data plus schema defaults (fields with a declared default get
  that value if absent and not optional; non-optional fields with no default get an
  explicit null if absent and not virtual)", and the fields excluded from the indexes
  computed from the schema.
\<close>

definition default_for :: "schema \<Rightarrow> props \<Rightarrow> string \<times> descriptor \<Rightarrow> props" where
  "default_for s data kd =
     (if has_own data (fst kd) \<or> truthy (prop_get (snd kd) ''optional'') then data
      else if has_own (snd kd) ''default'' then data @ [(fst kd, prop_get (snd kd) ''default'')]
      else if dict_has_own (virtuals s) (fst kd) then data
      else data @ [(fst kd, JNull)])"

definition entity_of :: "schema \<Rightarrow> string \<Rightarrow> props \<Rightarrow> key_desc \<Rightarrow> entity" where
  "entity_of s kind data k =
     \<lparr>entityKind = kind,
      entityData = foldl (default_for s) data (paths s),
      entityKey = k,
      excludeFromIndexes =
        map fst (filter (\<lambda>kd. prop_get (snd kd) ''excludeFromIndexes'' = JBool True) (paths s)),
      entity_schema = s\<rparr>"

text \<open>
  Modelled from the spec: the pre-hooks that the promised-hooks package runs before
  \<open>save\<close> ("run entity-scope pre-hooks for save (default first pre-hook performs schema
  validation when enabled, failing the whole chain with the first validation error if
  invalid)"; "each must complete before the next starts; any failure short-circuits").
  The default middleware itself is in lib/schema.js: it calls \<open>validate\<close> when
  \<open>options.validateBeforeSave\<close> is truthy and rejects with
  \<open>result.errors[Object.keys(result.errors)[0]]\<close>.
\<close>

definition run_pre :: "env \<Rightarrow> hook_fn \<Rightarrow> entity \<Rightarrow> err + entity" where
  "run_pre e fn this =
     (case fn of
        ValidateMiddleware \<Rightarrow>
          if truthy (prop_get (options (entity_schema this)) ''validateBeforeSave'')
          then (case validate (venv e) this of
                  Inl m \<Rightarrow> Inl (ErrThrown m)
                | Inr r \<Rightarrow>
                    (case fst r of
                       Success \<Rightarrow> Inr (snd r)
                     | Failure errs \<Rightarrow>
                         (case errs of [] \<Rightarrow> Inr (snd r) | x # _ \<Rightarrow> Inl (ErrValidation (snd x)))))
          else Inr this
      | UserFn n \<Rightarrow>
          (case user_pre_error e n this of None \<Rightarrow> Inr this | Some x \<Rightarrow> Inl (ErrValue x)))"

fun run_pres :: "env \<Rightarrow> hook_fn list \<Rightarrow> entity \<Rightarrow> err + entity" where
  "run_pres e [] this = Inr this"
| "run_pres e (fn # fns) this =
     (case run_pre e fn this of Inl x \<Rightarrow> Inl x | Inr this' \<Rightarrow> run_pres e fns this')"

definition save_pres :: "schema \<Rightarrow> hook_fn list" where
  "save_pres s = (case dict_get (callQueue_entity s) ''save'' of None \<Rightarrow> [] | Some q \<Rightarrow> pres q)"

text \<open>
  \<open>model.save(transaction, options)\<close> as \<open>update\<close> calls it: the pre-hooks, then the
  body. What the body throws rejects the promise. The post-hooks, which run after a
  body that succeeded and may replace the value returned, change neither the calls
  made nor the entity, and are left out.
\<close>

definition model_save :: "env \<Rightarrow> jsval \<Rightarrow> entity \<Rightarrow> jsval \<Rightarrow> jsval \<Rightarrow> event list \<times> (err + entity)" where
  "model_save e now this transaction opts =
     (case run_pres e (save_pres (entity_schema this)) this of
        Inl x \<Rightarrow> ([], Inl x)
      | Inr this1 \<Rightarrow>
          (case save e now this1 transaction opts of
             (this2, evs, res) \<Rightarrow>
               (case res of
                  CbOk _ \<Rightarrow> (evs, Inr this2)
                | CbError x \<Rightarrow> (evs, Inl x)
                | Threw m \<Rightarrow> (evs, Inl (ErrThrown m))
                | NoCallback \<Rightarrow> (evs, Inl (ErrThrown [])))))"

section \<open>The model: update\<close>

text \<open>
  What the datastore (or a transaction) answers to \<open>get(key)\<close>: it rejects, or it
  resolves with the array \<open>data\<close>, whose first element is the entity for one key and
  the array of the entities found for an array of keys. An entity is an object that
  holds its key under \<open>ds.KEY\<close>; the array of entities holds no key.
\<close>

datatype fetched = OneEntity jsval key_desc | ManyEntities "(jsval \<times> key_desc) list"

definition fetched_value :: "fetched \<Rightarrow> jsval" where
  "fetched_value f = (case f of OneEntity v _ \<Rightarrow> v | ManyEntities es \<Rightarrow> JArray 0 (map fst es))"

text \<open>
  What a transaction answers: the object \<open>ds.transaction()\<close> returns, whether \<open>run()\<close>
  rejects, what \<open>get(key)\<close> rejects or resolves with, and what \<open>rollback()\<close> and
  \<open>commit()\<close> reject (\<open>Inl\<close>) or resolve (\<open>Inr\<close>) with.
\<close>

record tx_env =
  new_transaction :: jsval
  run_error :: "jsval option"
  get_result :: "key_result \<Rightarrow> jsval + fetched list"
  rollback_result :: "jsval + jsval"
  commit_result :: "jsval + jsval"

text \<open>
  \<open>extend(false, target, source)\<close> of the extend package with an array as the source:
  for each index, \<open>copy = source[i]\<close> is stored as \<open>target[i]\<close> unless it is the target
  itself or undefined.
\<close>

fun extend_array :: "jsval \<Rightarrow> nat \<Rightarrow> jsval list \<Rightarrow> props \<Rightarrow> props" where
  "extend_array target i [] ps = ps"
| "extend_array target i (copy # rest) ps =
     extend_array target (Suc i) rest
       (if strict_eq target copy \<or> copy = JUndefined then ps
        else AList.update (nat_digits i) copy ps)"

text \<open>The elements of an array as its properties: the indices, in order, as names.\<close>

definition indexed :: "jsval list \<Rightarrow> props" where
  "indexed xs = zip (map nat_digits [0 ..< length xs]) xs"

text \<open>
  Modelled from the spec and the tests of the entity: the key of an entity that is
  constructed without one (\<open>new Model({})\<close>: "a partial Key (auto-generated id)" of the
  kind of the model), and that the constructor throws when the key it is given is not
  an instance of \<open>Key\<close>, as an array of keys is not ("throw error if key is not
  instance of Key"; the message is not in the sources).
\<close>

definition partial_key :: "string \<Rightarrow> key_desc" where
  "partial_key kind = \<lparr>key_namespace = None, key_path = [JStr kind]\<rparr>"

definition key_error :: string where
  "key_error = ''Error: Entity Key must be an instance of gcloud Key''"

text \<open>The argument of a Node callback read as \<open>if (err)\<close>: an error when truthy.\<close>

definition as_error :: "jsval \<Rightarrow> err option" where
  "as_error v = (if truthy v then Some (ErrValue v) else None)"

definition error_arg :: "err \<Rightarrow> err option" where
  "error_arg x = (case x of ErrValue v \<Rightarrow> as_error v | _ \<Rightarrow> Some x)"

text \<open>
  \<^verbatim>\<open>function onTransaction(transactionError, apiResponse) {
      if (transactionError || error) { return cb(transactionError || error); }
      else { ...; return cb(null, entityUpdated, apiResponse); } }\<close>
  where \<open>error\<close> is the variable of \<open>update\<close> that \<open>onEntity\<close> and the \<open>onError\<close>
  handlers assign.
\<close>

definition onTransaction :: "err option \<Rightarrow> err option \<Rightarrow> unit outcome" where
  "onTransaction error transactionError =
     (case transactionError of
        Some x \<Rightarrow> CbError x
      | None \<Rightarrow> (case error of Some x \<Rightarrow> CbError x | None \<Rightarrow> CbOk ()))"

text \<open>
  The two continuations \<open>done\<close>: for a transaction that \<open>update\<close> opened itself,
  \<^verbatim>\<open>function(err) { if (err) { return onTransaction(err); }
                   else { return transaction.commit().then(onTransaction); } }\<close>
  and for a transaction of the caller \<open>onTransaction\<close> itself. The \<open>then\<close> after
  \<open>commit()\<close> has no second handler: a commit that rejects ends without the callback.
\<close>

definition done_fn :: "tx_env \<Rightarrow> bool \<Rightarrow> err option \<Rightarrow> err option \<Rightarrow> event list \<times> unit outcome" where
  "done_fn t own_tx error arg =
     (if own_tx
      then (case arg of
              Some x \<Rightarrow> ([], onTransaction error (Some x))
            | None \<Rightarrow>
                (case commit_result t of
                   Inl _ \<Rightarrow> ([TxCommit], NoCallback)
                 | Inr v \<Rightarrow> ([TxCommit], onTransaction error (as_error v))))
      else ([], onTransaction error arg))"

text \<open>
  \<open>transaction.rollback().then(done)\<close>, reached with \<open>error\<close> set: \<open>done\<close> gets what the
  rollback resolved with as its first argument. A rollback that rejects ends without
  the callback.
\<close>

definition rollback_then_done :: "tx_env \<Rightarrow> bool \<Rightarrow> err option \<Rightarrow> event list \<times> unit outcome" where
  "rollback_then_done t own_tx error =
     (case rollback_result t of
        Inl _ \<Rightarrow> ([TxRollback], NoCallback)
      | Inr v \<Rightarrow>
          (case done_fn t own_tx error (as_error v) of (evs, res) \<Rightarrow> (TxRollback # evs, res)))"

text \<open>
  The inner \<open>save(key, data, transaction, done)\<close> of \<open>update\<close>: \<open>onSuccess\<close> calls
  \<open>done(null, entityUpdated)\<close>; \<open>onError\<close> sets \<open>error\<close> and calls \<open>done(err)\<close> when the
  transaction is falsy or an empty object, and otherwise rolls back and passes what the
  rollback resolves with to \<open>done\<close>.
\<close>

definition save_in_tx ::
  "env \<Rightarrow> tx_env \<Rightarrow> jsval \<Rightarrow> schema \<Rightarrow> string \<Rightarrow> bool \<Rightarrow> jsval \<Rightarrow> key_desc \<Rightarrow> props
     \<Rightarrow> event list \<times> unit outcome" where
  "save_in_tx e t now s kind own_tx transaction k data =
     (case model_save e now (entity_of s kind data k) transaction
             (JObject 0 object_class [(''op'', JStr ''update'')]) of
        (evs, Inr _) \<Rightarrow>
          (case done_fn t own_tx None None of (evs', res) \<Rightarrow> (evs @ evs', res))
      | (evs, Inl x) \<Rightarrow>
          if \<not> truthy transaction \<or> empty_object transaction
          then (case done_fn t own_tx (Some x) (error_arg x) of
                  (evs', res) \<Rightarrow> (evs @ evs', res))
          else (case rollback_then_done t own_tx (Some x) of
                  (evs', res) \<Rightarrow> (evs @ evs', res)))"

text \<open>
  \<open>getInTransaction(transaction, done)\<close>:
  \<^verbatim>\<open>function onEntity(data) {
      if (data.length === 0) {
          error = { code: 404, message: 'Entity {' + id.toString() + '} to update not found' };
          return transaction.rollback().then(done);
      }
      const entity = data[0];
      extend(false, entity, data);
      return save(entity[_this.gstore.ds.KEY], entity, transaction, done);
  }\<close>
  The parameter \<open>data\<close> of \<open>onEntity\<close> is the array the transaction's \<open>get\<close> resolved
  with; it hides the \<open>data\<close> that \<open>update\<close> was called with. What \<open>onEntity\<close> throws
  (\<open>id.toString()\<close> of undefined, a \<open>data[0]\<close> that is no object) rejects a promise that
  has no handler. For an array of keys \<open>data[0]\<close> is the array of the entities found:
  it holds no key, so it is saved as the data of a new entity with a partial key.
\<close>

definition getInTransaction ::
  "env \<Rightarrow> tx_env \<Rightarrow> jsval \<Rightarrow> schema \<Rightarrow> string \<Rightarrow> bool \<Rightarrow> jsval \<Rightarrow> jsval \<Rightarrow> key_result
     \<Rightarrow> event list \<times> unit outcome" where
  "getInTransaction e t now s kind own_tx transaction ident k =
     (case get_result t k of
        Inl x \<Rightarrow>
          (case done_fn t own_tx (Some (ErrValue x)) (as_error x) of
             (evs, res) \<Rightarrow> (TxGet k # evs, res))
      | Inr data \<Rightarrow>
          (case data of
             [] \<Rightarrow>
               if ident = JUndefined then ([TxGet k], NoCallback)
               else
                 (case rollback_then_done t own_tx
                         (Some (Err404 (''Entity {'' @ to_string ident @ ''} to update not found''))) of
                    (evs, res) \<Rightarrow> (TxGet k # evs, res))
           | OneEntity v ek # _ \<Rightarrow>
               (case v of
                  JObject i c ps \<Rightarrow>
                    (case save_in_tx e t now s kind own_tx transaction ek
                            (extend_array v 0 (map fetched_value data) ps) of
                       (evs, res) \<Rightarrow> (TxGet k # evs, res))
                | _ \<Rightarrow> ([TxGet k], NoCallback))
           | ManyEntities es # _ \<Rightarrow>
               (case save_in_tx e t now s kind own_tx transaction (partial_key kind)
                       (extend_array (JArray 0 (map fst es)) 0 (map fetched_value data)
                          (indexed (map fst es))) of
                  (evs, res) \<Rightarrow> (TxGet k # evs, res))))"

text \<open>
  The branch \<open>options.replace === true\<close>: \<open>save(key, data, null, cb)\<close>, where the null
  transaction is passed on as \<open>{}\<close> and \<open>done\<close> is the callback.
\<close>

definition save_replace ::
  "env \<Rightarrow> jsval \<Rightarrow> schema \<Rightarrow> string \<Rightarrow> key_desc \<Rightarrow> props \<Rightarrow> event list \<times> unit outcome" where
  "save_replace e now s kind k data =
     (case model_save e now (entity_of s kind data k) (JObject 0 object_class [])
             (JObject 0 object_class [(''op'', JStr ''update'')]) of
        (evs, Inr _) \<Rightarrow> (evs, CbOk ())
      | (evs, Inl x) \<Rightarrow> (evs, CbError x))"

text \<open>
  \<open>update(id, data, ancestors, namespace, transaction, options, cb)\<close> for an object
  \<open>data\<close>. With \<open>options.replace\<close> and an array of identifiers, the inner \<open>save\<close> hands
  the array of keys to the constructor of the entity, which throws.
\<close>

definition update ::
  "env \<Rightarrow> tx_env \<Rightarrow> jsval \<Rightarrow> schema \<Rightarrow> string \<Rightarrow> jsval \<Rightarrow> props \<Rightarrow> jsval \<Rightarrow> jsval \<Rightarrow> jsval \<Rightarrow> jsval
     \<Rightarrow> event list \<times> unit outcome" where
  "update e t now s kind ident data ancestors namespace transaction opts =
     (let k = key kind (parseId ident) ancestors namespace in
      if (case opts of JObject _ _ os \<Rightarrow> prop_get os ''replace'' = JBool True | _ \<Rightarrow> False)
      then (case k of
              OneKey k1 \<Rightarrow> save_replace e now s kind k1 data
            | ManyKeys _ \<Rightarrow> ([], Threw key_error))
      else if absent transaction
      then (case run_error t of
              Some x \<Rightarrow> ([TxRun], onTransaction None (as_error x))
            | None \<Rightarrow>
                (case getInTransaction e t now s kind True (new_transaction t) (parseId ident) k of
                   (evs, res) \<Rightarrow> (TxRun # evs, res)))
      else if constructor_name transaction \<noteq> ''Transaction''
      then ([], Threw ''Transaction needs to be a gcloud Transaction'')
      else getInTransaction e t now s kind False transaction (parseId ident) k)"

section \<open>The model: get\<close>

text \<open>
  Modelled from the spec: the key object of the datastore client, of which \<open>get\<close> reads
  \<open>entityKey.id\<close>. The spec has the identifier of a key "either absent, a string, or a
  number"; the client shows a number as \<open>id\<close> and a string as \<open>name\<close> (the tests of the
  entity expect \<open>entityKey.id\<close> to equal 123 and \<open>entityKey.name\<close> to equal
  \<open>'keyid'\<close>), so \<open>id\<close> is undefined on a key whose identifier is a string or absent.
\<close>

definition key_id :: "key_desc \<Rightarrow> jsval" where
  "key_id k =
     (if key_path k \<noteq> [] \<and> even (length (key_path k))
      then (case last (key_path k) of JNum q \<Rightarrow> JNum q | _ \<Rightarrow> JUndefined)
      else JUndefined)"

text \<open>
  \<open>Array.prototype.sort(compare)\<close> with a comparator that is consistent (here a
  difference of two positions): the elements in ascending order, those that compare
  equal in the order they had (the spec's "stable sort").
\<close>

fun insert_by :: "('a \<Rightarrow> 'a \<Rightarrow> int) \<Rightarrow> 'a \<Rightarrow> 'a list \<Rightarrow> 'a list" where
  "insert_by cmp x [] = [x]"
| "insert_by cmp x (y # ys) = (if cmp x y \<le> 0 then x # y # ys else y # insert_by cmp x ys)"

definition js_sort :: "('a \<Rightarrow> 'a \<Rightarrow> int) \<Rightarrow> 'a list \<Rightarrow> 'a list" where
  "js_sort cmp xs = foldr (insert_by cmp) xs []"

datatype response = Entity entity | Entities "entity list"

definition from_fetched :: "schema \<Rightarrow> string \<Rightarrow> jsval \<times> key_desc \<Rightarrow> entity" where
  "from_fetched s kind ek =
     entity_of s kind (case fst ek of JObject _ _ ps \<Rightarrow> ps | _ \<Rightarrow> []) (snd ek)"

text \<open>
  \<open>get(id, ancestors, namespace, transaction, options, cb)\<close>. \<open>multiple\<close> is read from
  the identifier as passed, the key is built from \<open>parseId(id)\<close>, and the comparator of
  the sort reads \<open>id.indexOf\<close> on \<open>parseId(id)\<close>. What \<open>onEntity\<close> throws (\<open>entity.map\<close>
  on an entity that is no array) rejects a promise that has no handler; so does, in
  the model, an answer that has not the shape of the key asked for.
\<close>

definition get ::
  "(key_result \<Rightarrow> jsval + fetched list) \<Rightarrow> schema \<Rightarrow> string \<Rightarrow> jsval \<Rightarrow> jsval \<Rightarrow> jsval \<Rightarrow> jsval
     \<Rightarrow> props \<Rightarrow> response outcome" where
  "get ds_get s kind ident ancestors namespace transaction opts =
     (let multiple = is_array ident;
          ident' = parseId ident;
          k = key kind ident' ancestors namespace
      in if truthy transaction \<and> constructor_name transaction \<noteq> ''Transaction''
         then Threw ''Transaction needs to be a gcloud Transaction''
         else
           (case ds_get k of
              Inl x \<Rightarrow> CbError (ErrValue x)
            | Inr data \<Rightarrow>
                (case data of
                   [] \<Rightarrow>
                     if ident' = JUndefined then NoCallback
                     else CbError (Err404 (kind @ '' {'' @ to_string ident' @ ''} not found''))
                 | OneEntity v ek # _ \<Rightarrow>
                     if multiple then NoCallback
                     else CbOk (Entity (from_fetched s kind (v, ek)))
                 | ManyEntities es # _ \<Rightarrow>
                     if \<not> multiple then NoCallback
                     else if truthy (prop_get opts ''preserveOrder'')
                     then (case ident' of
                             JArray _ ids \<Rightarrow>
                               CbOk (Entities
                                 (js_sort (\<lambda>a b. indexOf ids (key_id (entityKey a))
                                                  - indexOf ids (key_id (entityKey b)))
                                    (map (from_fetched s kind) es)))
                           | _ \<Rightarrow> NoCallback)
                     else CbOk (Entities (map (from_fetched s kind) es)))))"

section \<open>The model: delete and deleteAll\<close>

text \<open>
  Modelled from the spec: the hook registry that the model reads as \<open>this.hooks\<close>
  (\<open>_pres\<close> and \<open>_posts\<close>: for an operation name the functions registered, in order) and
  its \<open>execPre\<close> and \<open>execPost\<close>. The sources do not set \<open>hooks\<close> on the model. The spec:
  "Pre-hooks run strictly in registration order; each must complete before the next
  starts; any failure short-circuits directly to reporting that failure"; "Post-hooks
  run strictly in registration order after a successful operation".
\<close>

record hooks =
  h_pres :: "(string \<times> nat list) list"
  h_posts :: "(string \<times> nat list) list"

text \<open>
  What \<open>delete\<close> and \<open>deleteAll\<close> call outside the sources: whether a hook reports an
  error on a target, what \<open>ds.delete(key, cb)\<close> answers (an error, or the \<open>apiRes\<close>
  object), and what \<open>ds.runQuery\<close> answers for the query on the ancestors and the
  namespace (an error, or the keys of the entities found, in query order).
\<close>

record denv =
  hook_error :: "nat \<Rightarrow> key_result \<Rightarrow> jsval option"
  ds_delete :: "key_result \<Rightarrow> jsval + jsval"
  run_query :: "jsval \<Rightarrow> jsval \<Rightarrow> jsval + key_desc list"

fun execPre :: "denv \<Rightarrow> nat list \<Rightarrow> key_result \<Rightarrow> event list \<times> jsval option" where
  "execPre e [] target = ([], None)"
| "execPre e (h # hs) target =
     (case hook_error e h target of
        Some x \<Rightarrow> ([ExecPre h target], Some x)
      | None \<Rightarrow> (case execPre e hs target of (evs, r) \<Rightarrow> (ExecPre h target # evs, r)))"

fun execPost :: "denv \<Rightarrow> nat list \<Rightarrow> key_result \<Rightarrow> event list \<times> jsval option" where
  "execPost e [] target = ([], None)"
| "execPost e (h # hs) target =
     (case hook_error e h target of
        Some x \<Rightarrow> ([ExecPost h target], Some x)
      | None \<Rightarrow> (case execPost e hs target of (evs, r) \<Rightarrow> (ExecPost h target # evs, r)))"

definition registered :: "(string \<times> nat list) list \<Rightarrow> string \<Rightarrow> nat list" where
  "registered q name = (case map_of q name of None \<Rightarrow> [] | Some hs \<Rightarrow> hs)"

text \<open>
  \<open>apiRes.success = apiRes.indexUpdates > 0\<close>, for an \<open>apiRes\<close> that is truthy.
\<close>

definition with_success :: "jsval \<Rightarrow> jsval" where
  "with_success apiRes =
     (case apiRes of
        JObject i c ps \<Rightarrow>
          JObject i c (AList.update ''success''
            (JBool (case to_number (prop_get ps ''indexUpdates'') of
                      JNum q \<Rightarrow> q > 0 | JInfinity b \<Rightarrow> b | _ \<Rightarrow> False)) ps)
      | _ \<Rightarrow> apiRes)"

text \<open>
  \<open>delete(id, ancestors, namespace, transaction, key, cb)\<close>:
  \<open>async.series([pre, executeDelete, post], allDone)\<close>, where each step runs when the
  one before it reported no error. Inside a transaction \<open>executeDelete\<close> calls the
  callback of \<open>delete\<close> itself, with no argument, and the series ends there. A
  transaction that passed the test of its constructor's name is an object, on which
  \<open>hooksTransaction\<close> throws only when it hides \<open>hasOwnProperty\<close>.
\<close>

definition delete ::
  "denv \<Rightarrow> hooks \<Rightarrow> string \<Rightarrow> jsval \<Rightarrow> jsval \<Rightarrow> jsval \<Rightarrow> jsval \<Rightarrow> key_result option
     \<Rightarrow> event list \<times> jsval outcome" where
  "delete e h kind ident ancestors namespace transaction explicit =
     (let k = (case explicit of
                 None \<Rightarrow> key kind (parseId ident) ancestors namespace
               | Some k' \<Rightarrow> k')
      in if truthy transaction \<and> constructor_name transaction \<noteq> ''Transaction''
         then ([], Threw ''Transaction needs to be a gcloud Transaction'')
         else if truthy transaction \<and> hooksTransaction transaction \<noteq> None
         then ([], Threw not_a_function)
         else
           (case execPre e (registered (h_pres h) ''delete'') k of
              (evs1, Some x) \<Rightarrow> (evs1, CbError (ErrValue x))
            | (evs1, None) \<Rightarrow>
                if truthy transaction
                then (evs1 @ [TxDelete k, TxAddPostHook], CbOk JUndefined)
                else
                  (case ds_delete e k of
                     Inl x \<Rightarrow> (evs1 @ [DsDelete k], CbError (ErrValue x))
                   | Inr apiRes \<Rightarrow>
                       (case execPost e (registered (h_posts h) ''delete'') k of
                          (evs2, Some x) \<Rightarrow> (evs1 @ [DsDelete k] @ evs2, CbError (ErrValue x))
                        | (evs2, None) \<Rightarrow>
                            (evs1 @ [DsDelete k] @ evs2,
                             CbOk (if truthy apiRes then with_success apiRes else apiRes))))))"

text \<open>
  \<open>async.eachSeries(entities, deleteEntity, onEntitiesDeleted)\<close>: one \<open>delete\<close> with the
  key of each entity, in order, until one reports an error.
\<close>

fun eachSeries :: "denv \<Rightarrow> hooks \<Rightarrow> string \<Rightarrow> key_desc list \<Rightarrow> event list \<times> err option" where
  "eachSeries e h kind [] = ([], None)"
| "eachSeries e h kind (k # ks) =
     (case delete e h kind JNull JNull JNull JNull (Some (OneKey k)) of
        (evs, CbOk _) \<Rightarrow> (case eachSeries e h kind ks of (evs', r) \<Rightarrow> (evs @ evs', r))
      | (evs, CbError x) \<Rightarrow> (evs, Some x)
      | (evs, Threw m) \<Rightarrow> (evs, Some (ErrThrown m))
      | (evs, NoCallback) \<Rightarrow> (evs, Some (ErrThrown [])))"

text \<open>
  \<open>deleteAll(ancestors, namespace, cb)\<close>. Before the query runs, truthy ancestors are
  copied with \<open>ancestors.slice()\<close>, which an array and a string have; on another value
  the call throws a \<open>TypeError\<close> (an object has no \<open>slice\<close> unless its class defines
  one, which the model does not know of). On success the callback gets
  \<open>{success: true, message: 'All ' + entityKind + ' deleted successfully.'}\<close>, here its
  message.
\<close>

definition has_slice :: "jsval \<Rightarrow> bool" where
  "has_slice v = (case v of JArray _ _ \<Rightarrow> True | JStr _ \<Rightarrow> True | _ \<Rightarrow> False)"

definition deleteAll ::
  "denv \<Rightarrow> hooks \<Rightarrow> string \<Rightarrow> jsval \<Rightarrow> jsval \<Rightarrow> event list \<times> string outcome" where
  "deleteAll e h kind ancestors namespace =
     (if truthy ancestors \<and> \<not> has_slice ancestors
      then ([], Threw ''TypeError: ancestors.slice is not a function'')
      else
        (case run_query e ancestors namespace of
           Inl x \<Rightarrow> ([], CbError (ErrValue x))
         | Inr ks \<Rightarrow>
             if has_own (h_pres h) ''delete'' \<or> has_own (h_posts h) ''delete''
             then (case eachSeries e h kind ks of
                     (evs, Some x) \<Rightarrow> (evs, CbError x)
                   | (evs, None) \<Rightarrow> (evs, CbOk (''All '' @ kind @ '' deleted successfully.'')))
             else (case delete e h kind JNull JNull JNull JNull (Some (ManyKeys ks)) of
                     (evs, CbError x) \<Rightarrow> (evs, CbError x)
                   | (evs, Threw m) \<Rightarrow> (evs, Threw m)
                   | (evs, NoCallback) \<Rightarrow> (evs, NoCallback)
                   | (evs, CbOk _) \<Rightarrow> (evs, CbOk (''All '' @ kind @ '' deleted successfully.'')))))"

section \<open>Closed forms and examples used by the theorems\<close>

text \<open>
  What \<open>sanitize\<close> has done to the properties once its loop has visited the keys in
  \<open>K\<close>: of these, the undeclared and the write-protected are gone and the string
  \<open>'null'\<close> is null.
\<close>

definition san :: "schema \<Rightarrow> string set \<Rightarrow> props \<Rightarrow> props" where
  "san s K ps =
     map (\<lambda>kv. (fst kv, if fst kv \<in> K \<and> snd kv = JStr ''null'' then JNull else snd kv))
       (filter (\<lambda>kv. fst kv \<notin> K \<or>
                  (\<exists>d. map_of (paths s) (fst kv) = Some d \<and> prop_get d ''write'' \<noteq> JBool False)) ps)"

text \<open>
  A schema as \<open>new Schema({name: {type: 'string', required: true}, password: {write:
  false}, age: {type: 'int'}, modifiedOn: {type: 'datetime'}})\<close> builds it.
\<close>

definition user_paths :: "(string \<times> descriptor) list" where
  "user_paths =
     [(''name'', [(''type'', JStr ''string''), (''required'', JBool True)]),
      (''password'', [(''write'', JBool False)]),
      (''age'', [(''type'', JStr ''int'')]),
      (''modifiedOn'', [(''type'', JStr ''datetime'')])]"

definition user_schema :: schema where
  "user_schema =
     \<lparr>paths = user_paths,
      virtuals = empty_dict,
      callQueue_model = empty_dict,
      callQueue_entity = \<lparr>own = [(''save'', \<lparr>pres = [ValidateMiddleware], post = []\<rparr>)], proto = None\<rparr>,
      options = [(''validateBeforeSave'', JBool True),
                 (''queries'', JObject 0 object_class [(''readAll'', JBool False)])]\<rparr>"

text \<open>
  Collaborators for the examples: a serializer that wraps the data, a datastore that
  accepts every save, a \<open>validator\<close> package with no rule, a \<open>moment\<close> that accepts
  every date, and no failing hook.
\<close>

definition plain_env :: env where
  "plain_env =
     \<lparr>toDatastore = (\<lambda>data excluded. JObject 0 object_class data),
      ds_save_error = (\<lambda>k stored. None),
      venv = \<lparr>validator = (\<lambda>name. None), moment_isValid = (\<lambda>x. True)\<rparr>,
      user_pre_error = (\<lambda>n this. None)\<rparr>"

definition user_key :: key_desc where
  "user_key = \<lparr>key_namespace = None, key_path = [JStr ''User'', JNum 5]\<rparr>"

definition user_entity :: "props \<Rightarrow> entity" where
  "user_entity data =
     \<lparr>entityKind = ''User'', entityData = data, entityKey = user_key,
      excludeFromIndexes = [], entity_schema = user_schema\<rparr>"

text \<open>
  For \<open>deleteAll\<close>: the calls to \<open>ds.delete\<close> among the events; the events of one
  single delete that runs to its end (the pre-hooks in order, the delete, the
  post-hooks in order); and that, for a key, no hook registered for \<open>delete\<close> reports
  an error and the datastore deletes it.
\<close>

definition is_delete :: "event \<Rightarrow> bool" where
  "is_delete ev = (case ev of DsDelete _ \<Rightarrow> True | _ \<Rightarrow> False)"

definition delete_trace :: "hooks \<Rightarrow> key_desc \<Rightarrow> event list" where
  "delete_trace h k =
     map (\<lambda>n. ExecPre n (OneKey k)) (registered (h_pres h) ''delete'')
     @ [DsDelete (OneKey k)]
     @ map (\<lambda>n. ExecPost n (OneKey k)) (registered (h_posts h) ''delete'')"

definition hooks_pass :: "denv \<Rightarrow> hooks \<Rightarrow> key_desc \<Rightarrow> bool" where
  "hooks_pass e h k =
     (list_all (\<lambda>n. hook_error e n (OneKey k) = None)
        (registered (h_pres h) ''delete'' @ registered (h_posts h) ''delete'')
      \<and> (case ds_delete e (OneKey k) of Inl _ \<Rightarrow> False | Inr _ \<Rightarrow> True))"

text \<open>
  Of the hooks \<open>hs\<close>, those that run on a target: every hook up to and including the
  first that reports an error; and that error, if there is one. Then, for a single
  delete that a hook or the datastore stops: the events up to there (the pre-hooks
  that ran, without the delete when one of them reported an error; otherwise all the
  pre-hooks, the delete, and when the datastore accepted it the post-hooks that ran),
  and the error that stops it.
\<close>

definition hooks_run :: "denv \<Rightarrow> key_result \<Rightarrow> nat list \<Rightarrow> nat list" where
  "hooks_run e t hs = take (Suc (length (takeWhile (\<lambda>n. hook_error e n t = None) hs))) hs"

definition hooks_error :: "denv \<Rightarrow> key_result \<Rightarrow> nat list \<Rightarrow> jsval option" where
  "hooks_error e t hs =
     (case dropWhile (\<lambda>n. hook_error e n t = None) hs of
        [] \<Rightarrow> None
      | n # _ \<Rightarrow> hook_error e n t)"

definition stopped_trace :: "denv \<Rightarrow> hooks \<Rightarrow> key_desc \<Rightarrow> event list" where
  "stopped_trace e h k =
     (if hooks_error e (OneKey k) (registered (h_pres h) ''delete'') \<noteq> None
      then map (\<lambda>n. ExecPre n (OneKey k))
             (hooks_run e (OneKey k) (registered (h_pres h) ''delete''))
      else map (\<lambda>n. ExecPre n (OneKey k)) (registered (h_pres h) ''delete'')
           @ [DsDelete (OneKey k)]
           @ (case ds_delete e (OneKey k) of
                Inl _ \<Rightarrow> []
              | Inr _ \<Rightarrow>
                  map (\<lambda>n. ExecPost n (OneKey k))
                    (hooks_run e (OneKey k) (registered (h_posts h) ''delete''))))"

definition stopped_error :: "denv \<Rightarrow> hooks \<Rightarrow> key_desc \<Rightarrow> jsval option" where
  "stopped_error e h k =
     (case hooks_error e (OneKey k) (registered (h_pres h) ''delete'') of
        Some x \<Rightarrow> Some x
      | None \<Rightarrow>
          (case ds_delete e (OneKey k) of
             Inl x \<Rightarrow> Some x
           | Inr _ \<Rightarrow> hooks_error e (OneKey k) (registered (h_posts h) ''delete'')))"

text \<open>
  A kind \<open>Thing\<close> with two number fields, its keys, a datastore whose query finds the
  entities 1 and 2 and deletes what it is asked to, hooks that either pass or report
  an error, and the answer of a hook that refuses thing 2.
\<close>

definition thing_schema :: schema where
  "thing_schema =
     \<lparr>paths = [(''x'', [(''type'', JStr ''number'')]), (''y'', [(''type'', JStr ''number'')])],
      virtuals = empty_dict,
      callQueue_model = empty_dict,
      callQueue_entity = \<lparr>own = [(''save'', \<lparr>pres = [ValidateMiddleware], post = []\<rparr>)], proto = None\<rparr>,
      options = [(''validateBeforeSave'', JBool True),
                 (''queries'', JObject 0 object_class [(''readAll'', JBool False)])]\<rparr>"

definition thing_key :: "rat \<Rightarrow> key_desc" where
  "thing_key n = \<lparr>key_namespace = None, key_path = [JStr ''Thing'', JNum n]\<rparr>"

definition two_things :: "(nat \<Rightarrow> key_result \<Rightarrow> jsval option) \<Rightarrow> denv" where
  "two_things errors =
     \<lparr>hook_error = errors,
      ds_delete = (\<lambda>k. Inr (JObject 4 object_class [(''indexUpdates'', JNum 3)])),
      run_query = (\<lambda>ancestors namespace. Inr [thing_key 1, thing_key 2])\<rparr>"

definition veto_thing_2 :: "nat \<Rightarrow> key_result \<Rightarrow> jsval option" where
  "veto_thing_2 n k = (if k = OneKey (thing_key 2) then Some (JStr ''veto'') else None)"

definition no_hooks :: hooks where
  "no_hooks = \<lparr>h_pres = [], h_posts = []\<rparr>"

definition post_hook_7 :: hooks where
  "post_hook_7 = \<lparr>h_pres = [], h_posts = [(''delete'', [7])]\<rparr>"

definition pre_hook_3 :: hooks where
  "pre_hook_3 = \<lparr>h_pres = [(''delete'', [3])], h_posts = []\<rparr>"

text \<open>
  A transaction that finds \<open>found\<close> under every key and whose \<open>rollback()\<close> and
  \<open>commit()\<close> resolve with \<open>r\<close> and \<open>c\<close>; a transaction that answers every \<open>get\<close> with
  the array of the things 1 and 2; things stored under a name instead of a number; and a datastore that answers a \<open>get\<close> of the keys of the things 2 and 1 with
  the two entities in the order 1, 2, a \<open>get\<close> of the keys of the things \<open>b\<close> and \<open>a\<close>
  with the two entities in the order \<open>a\<close>, \<open>b\<close>, and a \<open>get\<close> of the key of thing 5
  with that entity.
\<close>

definition tx_with :: "(jsval \<times> key_desc) list \<Rightarrow> jsval \<Rightarrow> jsval \<Rightarrow> tx_env" where
  "tx_with found r c =
     \<lparr>new_transaction = JObject 1 (user_class ''Transaction'') [(''id'', JNum 1)],
      run_error = None,
      get_result = (\<lambda>k. Inr (map (\<lambda>vk. OneEntity (fst vk) (snd vk)) found)),
      rollback_result = Inr r,
      commit_result = Inr c\<rparr>"

text \<open>
  The error the callback of \<open>update\<close> gets for an identifier with no entity, once the
  last promise of the chain has resolved with \<open>resolved\<close>: that value when it is truthy,
  the 404 object otherwise.
\<close>

definition absent_error :: "jsval \<Rightarrow> jsval \<Rightarrow> err" where
  "absent_error ident resolved =
     (if truthy resolved then ErrValue resolved
      else Err404 (''Entity {'' @ to_string ident @ ''} to update not found''))"

definition thing :: "nat \<Rightarrow> rat \<Rightarrow> jsval \<times> key_desc" where
  "thing i n = (JObject i object_class [(''x'', JNum n), (''y'', JNum 0)], thing_key n)"

definition things_tx :: tx_env where
  "things_tx =
     \<lparr>new_transaction = JObject 1 (user_class ''Transaction'') [(''id'', JNum 1)],
      run_error = None,
      get_result = (\<lambda>k. Inr [ManyEntities [thing 11 1, thing 12 2]]),
      rollback_result = Inr JUndefined,
      commit_result = Inr JUndefined\<rparr>"

definition named_key :: "string \<Rightarrow> key_desc" where
  "named_key n = \<lparr>key_namespace = None, key_path = [JStr ''Thing'', JStr n]\<rparr>"

definition named_thing :: "nat \<Rightarrow> string \<Rightarrow> jsval \<times> key_desc" where
  "named_thing i n = (JObject i object_class [(''x'', JNum 0), (''y'', JNum 0)], named_key n)"

definition things_get :: "key_result \<Rightarrow> jsval + fetched list" where
  "things_get k =
     (if k = ManyKeys [thing_key 2, thing_key 1] then Inr [ManyEntities [thing 11 1, thing 12 2]]
      else if k = ManyKeys [named_key ''b'', named_key ''a'']
      then Inr [ManyEntities [named_thing 21 ''a'', named_thing 22 ''b'']]
      else if k = OneKey (thing_key 5) then Inr [OneEntity (fst (thing 15 5)) (thing_key 5)]
      else Inr [])"

text \<open>
  For \<open>validate\<close>: that the format check of a field rejects a value (the descriptor has
  a \<open>validate\<close> rule, the value is truthy and the rule's function returns false), and
  that the enumerated-values check rejects it (the descriptor has \<open>values\<close>, the value
  is not the empty string and is not in the array, or its text not in the string).
\<close>

definition format_rejects :: "validate_env \<Rightarrow> descriptor \<Rightarrow> jsval \<Rightarrow> bool" where
  "format_rejects env d v =
     (has_own d ''validate'' \<and> truthy v \<and>
      (\<exists>f. validator env (to_string (prop_get d ''validate'')) = Some f \<and> \<not> f v))"

definition values_rejects :: "descriptor \<Rightarrow> jsval \<Rightarrow> bool" where
  "values_rejects d v =
     (has_own d ''values'' \<and> v \<noteq> JStr [] \<and>
      ((\<exists>i vs. prop_get d ''values'' = JArray i vs \<and> indexOf vs v < 0) \<or>
       (\<exists>x. prop_get d ''values'' = JStr x \<and> \<not> contains x (to_string v))))"

text \<open>
  What one round of the loop for the key \<open>k\<close> keeps of the errors: an error stored
  under a name stays stored under it; under a name other than \<open>k\<close>, \<open>properties\<close> and
  \<open>datetime\<close> nothing changes; and under a name other than \<open>k\<close> no Required error
  appears.
\<close>

definition keeps :: "string \<Rightarrow> errors \<Rightarrow> errors \<Rightarrow> bool" where
  "keeps k errs errs' =
     ((\<forall>x. map_of errs x \<noteq> None \<longrightarrow> map_of errs' x \<noteq> None) \<and>
      (\<forall>x. x \<noteq> k \<and> x \<noteq> ''properties'' \<and> x \<noteq> ''datetime'' \<longrightarrow> map_of errs' x = map_of errs x) \<and>
      (\<forall>x. x \<noteq> k \<and> map_of errs x \<noteq> Some (required_error x) \<longrightarrow>
             map_of errs' x \<noteq> Some (required_error x)))"



definition choice_schema :: schema where
  "choice_schema =
     user_schema\<lparr>paths :=
       [(''name'', [(''required'', JBool True),
                    (''values'', JArray 5 [JStr ''a'', JStr ''b''])])]\<rparr>"

text \<open>
  A schema whose required field is named \<open>properties\<close>; a schema whose required field
  \<open>email\<close> has the rule \<open>isEmail\<close>; and a \<open>validator\<close> package whose \<open>isEmail\<close> accepts
  the strings that hold an \<open>@\<close>.
\<close>

definition properties_schema :: schema where
  "properties_schema = user_schema\<lparr>paths := [(''properties'', [(''required'', JBool True)])]\<rparr>"

definition email_schema :: schema where
  "email_schema =
     user_schema\<lparr>paths :=
       [(''email'', [(''required'', JBool True), (''validate'', JStr ''isEmail'')])]\<rparr>"

definition email_env :: validate_env where
  "email_env =
     \<lparr>validator = (\<lambda>name. if name = ''isEmail''
                            then Some (\<lambda>v. case v of JStr x \<Rightarrow> CHR ''@'' \<in> set x | _ \<Rightarrow> False)
                            else None),
      moment_isValid = (\<lambda>x. True)\<rparr>"

definition virtual_name_schema :: schema where
  "virtual_name_schema =
     user_schema\<lparr>virtuals := \<lparr>own = [(''name'', \<lparr>vt_ref = 1, vt_name = ''name''\<rparr>)], proto = None\<rparr>\<rparr>"

section \<open>Facts about the JavaScript values\<close>

lemma strict_eq_bool [simp]: "strict_eq v (JBool b) = (v = JBool b)"
  by (cases v) (auto simp: strict_eq_def)

lemma strict_eq_str [simp]: "strict_eq v (JStr x) = (v = JStr x)"
  by (cases v) (auto simp: strict_eq_def)


lemma delete_filter: "AList.delete k ps = filter (\<lambda>kv. fst kv \<noteq> k) ps"
  by (induction ps) (auto simp: AList.delete_eq)

lemma map_unchanged: "(\<And>x. x \<in> set xs \<Longrightarrow> f x = x) \<Longrightarrow> map f xs = xs"
  by (induction xs) auto

lemma in_set_map_of:
  "distinct (map fst ps) \<Longrightarrow> kv \<in> set ps \<Longrightarrow> map_of ps (fst kv) = Some (snd kv)"
  by (cases kv) simp

lemma update_map:
  "distinct (map fst ps) \<Longrightarrow> k \<in> fst ` set ps \<Longrightarrow>
   AList.update k v ps = map (\<lambda>kv. (fst kv, if fst kv = k then v else snd kv)) ps"
proof (induction ps)
  case Nil
  then show ?case by simp
next
  case (Cons p ps)
  show ?case
  proof (cases "fst p = k")
    case True
    then have "k \<notin> fst ` set ps" using Cons.prems by auto
    then have "map (\<lambda>kv. (fst kv, if fst kv = k then v else snd kv)) ps = ps"
      by (intro map_unchanged) (auto simp: rev_image_eqI)
    with True show ?thesis by (cases p) simp
  next
    case False
    with Cons show ?thesis by (cases p) auto
  qed
qed

section \<open>sanitize\<close>

lemma sanitize_key_san:
  assumes "distinct (map fst ps)"
  shows "sanitize_key s ps k = san s {k} ps"
proof -
  let ?keep = "\<exists>d. map_of (paths s) k = Some d \<and> prop_get d ''write'' \<noteq> JBool False"
  show ?thesis
  proof (cases ?keep)
    case False
    then have a: "sanitize_key s ps k = filter (\<lambda>kv. fst kv \<noteq> k) ps"
      by (auto simp: sanitize_key_def delete_filter split: option.splits)
    have b: "filter (\<lambda>kv. fst kv \<notin> {k} \<or> (\<exists>d. map_of (paths s) (fst kv) = Some d \<and> prop_get d ''write'' \<noteq> JBool False)) ps
             = filter (\<lambda>kv. fst kv \<noteq> k) ps"
      using False by (intro filter_cong) auto
    have c: "map (\<lambda>kv. (fst kv, if fst kv \<in> {k} \<and> snd kv = JStr ''null'' then JNull else snd kv)) (filter (\<lambda>kv. fst kv \<noteq> k) ps)
             = filter (\<lambda>kv. fst kv \<noteq> k) ps"
      by (intro map_unchanged) auto
    show ?thesis unfolding san_def a b c ..
  next
    case True
    then have b: "filter (\<lambda>kv. fst kv \<notin> {k} \<or> (\<exists>d. map_of (paths s) (fst kv) = Some d \<and> prop_get d ''write'' \<noteq> JBool False)) ps = ps"
      by (intro filter_True) auto
    show ?thesis
    proof (cases "prop_get ps k = JStr ''null''")
      case N: True
      then have m: "map_of ps k = Some (JStr ''null'')"
        by (auto simp: prop_get_def split: option.splits)
      then have "k \<in> fst ` set ps"
        by (metis map_of_eq_None_iff option.distinct(1))
      then have u: "AList.update k JNull ps = map (\<lambda>kv. (fst kv, if fst kv = k then JNull else snd kv)) ps"
        using assms by (rule update_map[rotated])
      have a: "sanitize_key s ps k = AList.update k JNull ps"
        using True N by (auto simp: sanitize_key_def)
      have "map (\<lambda>kv. (fst kv, if fst kv = k then JNull else snd kv)) ps
          = map (\<lambda>kv. (fst kv, if fst kv \<in> {k} \<and> snd kv = JStr ''null'' then JNull else snd kv)) ps"
        using m in_set_map_of[OF assms] by (intro map_cong) auto
      then show ?thesis unfolding san_def a b u .
    next
      case N: False
      have a: "sanitize_key s ps k = ps"
        using True N by (auto simp: sanitize_key_def)
      have "\<And>kv. kv \<in> set ps \<Longrightarrow> fst kv = k \<Longrightarrow> snd kv \<noteq> JStr ''null''"
        using N in_set_map_of[OF assms] by (auto simp: prop_get_def split: option.splits)
      then have "map (\<lambda>kv. (fst kv, if fst kv \<in> {k} \<and> snd kv = JStr ''null'' then JNull else snd kv)) ps = ps"
        by (intro map_unchanged) auto
      then show ?thesis unfolding san_def a b by simp
    qed
  qed
qed

lemma san_keys:
  "map fst (san s K ps) =
   map fst (filter (\<lambda>kv. fst kv \<notin> K \<or>
              (\<exists>d. map_of (paths s) (fst kv) = Some d \<and> prop_get d ''write'' \<noteq> JBool False)) ps)"
  by (simp add: san_def comp_def)

lemma san_distinct: "distinct (map fst ps) \<Longrightarrow> distinct (map fst (san s K ps))"
  by (simp add: san_keys distinct_map_filter)

lemma san_san: "san s K (san s {k} ps) = san s (insert k K) ps"
  unfolding san_def by (induction ps) auto

lemma foldl_sanitize:
  "distinct (map fst ps) \<Longrightarrow> foldl (sanitize_key s) ps ks = san s (set ks) ps"
proof (induction ks arbitrary: ps)
  case Nil
  have "san s {} ps = ps" unfolding san_def by (induction ps) auto
  then show ?case by simp
next
  case (Cons k ks)
  show ?case
    using Cons.IH[OF san_distinct[OF Cons.prems, of s "{k}"]] Cons.prems
    by (simp add: sanitize_key_san san_san)
qed

text \<open>
  The paths of a schema never hide \<open>hasOwnProperty\<close>: the constructor and \<open>path\<close>
  refuse that name, and \<open>pre\<close> leaves the paths as they are.
\<close>

lemma declare_paths_names:
  "declare_paths ps obj = Inr ps' \<Longrightarrow> \<forall>k\<in>set (map fst ps). \<not> reserved_lookup k \<Longrightarrow>
   \<forall>k\<in>set (map fst ps'). \<not> reserved_lookup k"
proof (induction ps obj rule: declare_paths.induct)
  case (1 ps)
  then show ?case by simp
next
  case (2 ps k d rest)
  from "2.prems"(1) have nk: "\<not> reserved_lookup k"
    by (cases "reserved_lookup k") simp_all
  with "2.prems"(1) have r: "declare_paths (AList.update k d ps) rest = Inr ps'"
    by simp
  have "\<forall>x\<in>set (map fst (AList.update k d ps)). \<not> reserved_lookup x"
    using "2.prems"(2) nk by (auto simp: AList.dom_update)
  with "2.IH"[OF nk r] show ?case by simp
qed

lemma pre_paths: "pre s hook fn = Inr s' \<Longrightarrow> paths s' = paths s"
  by (auto simp: pre_def split: if_splits sum.splits)

lemma Schema_paths_names:
  assumes "Schema obj opts = Inr s"
  shows "\<forall>k\<in>set (map fst (paths s)). \<not> reserved_lookup k"
proof -
  from assms obtain ps where ps: "declare_paths [] obj = Inr ps"
    by (cases "declare_paths [] obj") (simp_all add: Schema_def)
  with assms have "paths s = ps"
    by (auto simp: Schema_def dest: pre_paths)
  with declare_paths_names[OF ps] show ?thesis by simp
qed

lemma path_paths_names:
  assumes "path s p (Some d) = Inr (PathThis s')"
    and "\<forall>k\<in>set (map fst (paths s)). \<not> reserved_lookup k"
  shows "\<forall>k\<in>set (map fst (paths s')). \<not> reserved_lookup k"
proof -
  from assms(1) have np: "\<not> reserved_lookup p" and s': "paths s' = AList.update p d (paths s)"
    by (auto simp: path_def split: if_splits)
  have "set (map fst (paths s')) = insert p (set (map fst (paths s)))"
    using s' by (simp add: AList.dom_update)
  with np assms(2) show ?thesis by auto
qed

lemma names_hasOwnProperty:
  "\<forall>k\<in>set (map fst (paths s)). \<not> reserved_lookup k \<Longrightarrow> \<not> has_own (paths s) ''hasOwnProperty''"
  by (auto simp: has_own_def reserved_lookup_def object_prototype_names_def)

text \<open>
  C10. \<open>sanitize\<close> returns null for every input that is not an object, as \<open>is.object\<close>
  judges it: a primitive, an array, a function, an object whose tag is not \<open>Object\<close>.
  For an object data bag with the properties \<open>ps\<close> it returns the same object (the
  same reference \<open>i\<close>), whose properties are now those of \<open>ps\<close> whose key the schema
  declares without \<open>write === false\<close>, in their order, with the string \<open>'null'\<close>
  replaced by null and every other value as it was. The properties of an object have
  distinct keys, and the paths of a schema hold no path named \<open>hasOwnProperty\<close>
  (\<open>Schema_paths_names\<close>, \<open>path_paths_names\<close>).
\<close>

theorem sanitize_spec:
  "(\<not> is_object data \<longrightarrow> sanitize s data = Inr JNull) \<and>
   (class_tag c = ''Object'' \<and> distinct (map fst ps) \<and>
    \<not> has_own (paths s) ''hasOwnProperty'' \<longrightarrow>
      sanitize s (JObject i c ps) =
        Inr (JObject i c
          (map (\<lambda>kv. (fst kv, if snd kv = JStr ''null'' then JNull else snd kv))
             (filter (\<lambda>kv. \<exists>d. map_of (paths s) (fst kv) = Some d \<and>
                                prop_get d ''write'' \<noteq> JBool False) ps))))"
proof (intro conjI impI)
  assume "\<not> is_object data"
  then show "sanitize s data = Inr JNull"
    by (cases data) (auto simp: sanitize_def)
next
  assume a: "class_tag c = ''Object'' \<and> distinct (map fst ps) \<and>
    \<not> has_own (paths s) ''hasOwnProperty''"
  then have "foldl (sanitize_key s) ps (map fst ps) = san s (set (map fst ps)) ps"
    by (intro foldl_sanitize) simp
  also have "\<dots> = map (\<lambda>kv. (fst kv, if snd kv = JStr ''null'' then JNull else snd kv))
             (filter (\<lambda>kv. \<exists>d. map_of (paths s) (fst kv) = Some d \<and> prop_get d ''write'' \<noteq> JBool False) ps)"
  proof -
    have mem: "\<And>kv. kv \<in> set ps \<Longrightarrow> fst kv \<in> set (map fst ps)" by simp
    have f: "filter (\<lambda>kv. fst kv \<notin> set (map fst ps) \<or> (\<exists>d. map_of (paths s) (fst kv) = Some d \<and> prop_get d ''write'' \<noteq> JBool False)) ps
           = filter (\<lambda>kv. \<exists>d. map_of (paths s) (fst kv) = Some d \<and> prop_get d ''write'' \<noteq> JBool False) ps"
      using mem by (intro filter_cong) simp_all
    have "map (\<lambda>kv. (fst kv, if fst kv \<in> set (map fst ps) \<and> snd kv = JStr ''null'' then JNull else snd kv)) qs
        = map (\<lambda>kv. (fst kv, if snd kv = JStr ''null'' then JNull else snd kv)) qs" if "set qs \<subseteq> set ps" for qs
      using that mem by (intro map_cong) auto
    then show ?thesis unfolding san_def f by simp
  qed
  finally show "sanitize s (JObject i c ps) = Inr (JObject i c
          (map (\<lambda>kv. (fst kv, if snd kv = JStr ''null'' then JNull else snd kv))
             (filter (\<lambda>kv. \<exists>d. map_of (paths s) (fst kv) = Some d \<and> prop_get d ''write'' \<noteq> JBool False) ps)))"
    using a by (simp add: sanitize_def is_object_def)
qed

theorem sanitize_spec_witness:
  "sanitize user_schema (JArray 3 [JNum 1]) = Inr JNull \<and>
   sanitize user_schema
     (JObject 5 \<lparr>class_tag = ''Uint8Array'', class_name = ''Buffer''\<rparr> [(''name'', JStr ''Ann'')])
   = Inr JNull \<and>
   sanitize user_schema
     (JObject 7 object_class
        [(''name'', JStr ''null''), (''admin'', JBool True), (''password'', JStr ''s3cret''),
         (''age'', JNum 3)])
   = Inr (JObject 7 object_class [(''name'', JNull), (''age'', JNum 3)])"
  using sanitize_spec [where data = "JArray 3 [JNum 1]" and s = user_schema and i = 7
      and c = object_class
      and ps = "[(''name'', JStr ''null''), (''admin'', JBool True),
                 (''password'', JStr ''s3cret''), (''age'', JNum 3)]"]
    sanitize_spec [where s = user_schema and i = 7 and c = object_class and ps = "[]"
      and data = "JObject 5 \<lparr>class_tag = ''Uint8Array'', class_name = ''Buffer''\<rparr>
                    [(''name'', JStr ''Ann'')]"]
  by (simp add: is_object_def user_schema_def user_paths_def prop_get_def has_own_def)

section \<open>save\<close>






section \<open>deleteAll\<close>

lemma truthy_JNull [simp]: "\<not> truthy JNull"
  by (simp add: truthy_def)

lemma execPre_pass:
  "list_all (\<lambda>n. hook_error e n t = None) hs \<Longrightarrow> execPre e hs t = (map (\<lambda>n. ExecPre n t) hs, None)"
  by (induction hs) auto

lemma execPost_pass:
  "list_all (\<lambda>n. hook_error e n t = None) hs \<Longrightarrow> execPost e hs t = (map (\<lambda>n. ExecPost n t) hs, None)"
  by (induction hs) auto

lemma execPre_no_delete: "filter is_delete (fst (execPre e hs t)) = []"
  by (induction hs) (auto simp: is_delete_def split: option.splits prod.splits)

lemma execPost_no_delete: "filter is_delete (fst (execPost e hs t)) = []"
  by (induction hs) (auto simp: is_delete_def split: option.splits prod.splits)

lemma delete_pass:
  assumes "hooks_pass e h k"
  shows "\<exists>r. delete e h kind JNull JNull JNull JNull (Some (OneKey k)) = (delete_trace h k, CbOk r)"
proof -
  from assms obtain r where r: "ds_delete e (OneKey k) = Inr r"
    by (auto simp: hooks_pass_def split: sum.splits)
  from assms have a: "list_all (\<lambda>n. hook_error e n (OneKey k) = None) (registered (h_pres h) ''delete'')"
    and b: "list_all (\<lambda>n. hook_error e n (OneKey k) = None) (registered (h_posts h) ''delete'')"
    by (auto simp: hooks_pass_def)
  show ?thesis
    by (simp add: delete_def Let_def execPre_pass[OF a] execPost_pass[OF b] r delete_trace_def)
qed

lemma delete_deletes:
  "filter is_delete (fst (delete e h kind JNull JNull JNull JNull (Some (OneKey k)))) = [] \<and>
     (\<forall>r. snd (delete e h kind JNull JNull JNull JNull (Some (OneKey k))) \<noteq> CbOk r)
   \<or> filter is_delete (fst (delete e h kind JNull JNull JNull JNull (Some (OneKey k)))) = [DsDelete (OneKey k)]"
proof -
  obtain evs1 r1 where p: "execPre e (registered (h_pres h) ''delete'') (OneKey k) = (evs1, r1)"
    by (cases "execPre e (registered (h_pres h) ''delete'') (OneKey k)")
  obtain evs2 r2 where q: "execPost e (registered (h_posts h) ''delete'') (OneKey k) = (evs2, r2)"
    by (cases "execPost e (registered (h_posts h) ''delete'') (OneKey k)")
  have f1: "filter is_delete evs1 = []" using execPre_no_delete[of e _ "OneKey k"] p by (metis fst_conv)
  have f2: "filter is_delete evs2 = []" using execPost_no_delete[of e _ "OneKey k"] q by (metis fst_conv)
  show ?thesis
    by (cases r1; cases r2; cases "ds_delete e (OneKey k)")
       (simp_all add: delete_def p q f1 f2 is_delete_def)
qed

lemma eachSeries_pass:
  "list_all (hooks_pass e h) ks \<Longrightarrow> eachSeries e h kind ks = (concat (map (delete_trace h) ks), None)"
proof (induction ks)
  case Nil
  then show ?case by simp
next
  case (Cons k ks)
  then obtain r where "delete e h kind JNull JNull JNull JNull (Some (OneKey k)) = (delete_trace h k, CbOk r)"
    using delete_pass[of e h k kind] by auto
  with Cons show ?case by simp
qed

lemma eachSeries_prefix:
  "\<exists>m\<le>length ks. filter is_delete (fst (eachSeries e h kind ks)) = map (\<lambda>k. DsDelete (OneKey k)) (take m ks)"
proof (induction ks)
  case Nil
  then show ?case by simp
next
  case (Cons k ks)
  obtain evs r where d: "delete e h kind JNull JNull JNull JNull (Some (OneKey k)) = (evs, r)"
    by (cases "delete e h kind JNull JNull JNull JNull (Some (OneKey k))")
  obtain evs' r' where s: "eachSeries e h kind ks = (evs', r')"
    by (cases "eachSeries e h kind ks")
  from Cons s obtain m where m: "m \<le> length ks"
    "filter is_delete evs' = map (\<lambda>k. DsDelete (OneKey k)) (take m ks)"
    by auto
  have dd: "filter is_delete evs = [] \<and> (\<forall>x. r \<noteq> CbOk x) \<or> filter is_delete evs = [DsDelete (OneKey k)]"
    using delete_deletes[of e h kind k] d by simp
  show ?case
  proof (cases r)
    case (CbOk x)
    with dd have "filter is_delete evs = [DsDelete (OneKey k)]" by auto
    with m CbOk d s show ?thesis
      by (intro exI[of _ "Suc m"]) simp
  next
    case (CbError x)
    from dd show ?thesis
    proof
      assume "filter is_delete evs = [] \<and> (\<forall>x. r \<noteq> CbOk x)"
      with CbError d show ?thesis by (intro exI[of _ 0]) simp
    next
      assume "filter is_delete evs = [DsDelete (OneKey k)]"
      with CbError d show ?thesis by (intro exI[of _ "Suc 0"]) simp
    qed
  next
    case (Threw x)
    from dd show ?thesis
    proof
      assume "filter is_delete evs = [] \<and> (\<forall>x. r \<noteq> CbOk x)"
      with Threw d show ?thesis by (intro exI[of _ 0]) simp
    next
      assume "filter is_delete evs = [DsDelete (OneKey k)]"
      with Threw d show ?thesis by (intro exI[of _ "Suc 0"]) simp
    qed
  next
    case NoCallback
    from dd show ?thesis
    proof
      assume "filter is_delete evs = [] \<and> (\<forall>x. r \<noteq> CbOk x)"
      with NoCallback d show ?thesis by (intro exI[of _ 0]) simp
    next
      assume "filter is_delete evs = [DsDelete (OneKey k)]"
      with NoCallback d show ?thesis by (intro exI[of _ "Suc 0"]) simp
    qed
  qed
qed

lemma delete_trace_deletes: "filter is_delete (delete_trace h k) = [DsDelete (OneKey k)]"
  by (simp add: delete_trace_def is_delete_def filter_map comp_def)

lemma deletes_of_traces:
  "filter is_delete (concat (map (delete_trace h) ks)) = map (\<lambda>k. DsDelete (OneKey k)) ks"
  by (induction ks) (simp_all add: delete_trace_deletes)

lemma hooks_error_None:
  "hooks_error e t hs = None \<longleftrightarrow> list_all (\<lambda>n. hook_error e n t = None) hs"
  by (induction hs) (auto simp: hooks_error_def)

lemma hooks_run_pass:
  "list_all (\<lambda>n. hook_error e n t = None) hs \<Longrightarrow> hooks_run e t hs = hs"
  by (simp add: hooks_run_def list_all_iff takeWhile_eq_all_conv[THEN iffD2])

lemma execPre_run:
  "execPre e hs t = (map (\<lambda>n. ExecPre n t) (hooks_run e t hs), hooks_error e t hs)"
  by (induction hs) (auto simp: hooks_run_def hooks_error_def)

lemma execPost_run:
  "execPost e hs t = (map (\<lambda>n. ExecPost n t) (hooks_run e t hs), hooks_error e t hs)"
  by (induction hs) (auto simp: hooks_run_def hooks_error_def)

text \<open>A single delete that does not pass ends with the error that stops it.\<close>

lemma delete_stopped:
  assumes "\<not> hooks_pass e h k"
  shows "\<exists>x. stopped_error e h k = Some x \<and>
             delete e h kind JNull JNull JNull JNull (Some (OneKey k))
               = (stopped_trace e h k, CbError (ErrValue x))"
proof (cases "hooks_error e (OneKey k) (registered (h_pres h) ''delete'')")
  case (Some x)
  then show ?thesis
    by (simp add: delete_def Let_def execPre_run stopped_trace_def stopped_error_def)
next
  case None
  then have pres: "list_all (\<lambda>n. hook_error e n (OneKey k) = None) (registered (h_pres h) ''delete'')"
    by (simp add: hooks_error_None)
  show ?thesis
  proof (cases "ds_delete e (OneKey k)")
    case (Inl x)
    with None pres show ?thesis
      by (simp add: delete_def Let_def execPre_run hooks_run_pass stopped_trace_def
          stopped_error_def)
  next
    case (Inr r)
    with assms pres have "\<not> list_all (\<lambda>n. hook_error e n (OneKey k) = None) (registered (h_posts h) ''delete'')"
      by (auto simp: hooks_pass_def)
    then obtain x where "hooks_error e (OneKey k) (registered (h_posts h) ''delete'') = Some x"
      using hooks_error_None[of e "OneKey k" "registered (h_posts h) ''delete''"] by auto
    with None pres Inr show ?thesis
      by (simp add: delete_def Let_def execPre_run execPost_run hooks_run_pass stopped_trace_def
          stopped_error_def)
  qed
qed

lemma eachSeries_stopped:
  assumes "list_all (hooks_pass e h) ks1" and "\<not> hooks_pass e h k"
  shows "\<exists>x. stopped_error e h k = Some x \<and>
             eachSeries e h kind (ks1 @ k # ks2)
               = (concat (map (delete_trace h) ks1) @ stopped_trace e h k, Some (ErrValue x))"
  using assms(1)
proof (induction ks1)
  case Nil
  from delete_stopped[OF assms(2), of kind] show ?case by auto
next
  case (Cons k1 ks1)
  then obtain r where "delete e h kind JNull JNull JNull JNull (Some (OneKey k1)) = (delete_trace h k1, CbOk r)"
    using delete_pass[of e h k1 kind] by auto
  moreover from Cons obtain x where "stopped_error e h k = Some x"
    "eachSeries e h kind (ks1 @ k # ks2)
       = (concat (map (delete_trace h) ks1) @ stopped_trace e h k, Some (ErrValue x))"
    by auto
  ultimately show ?case by simp
qed

lemma stopped_trace_deletes:
  "filter is_delete (stopped_trace e h k)
     = (if hooks_error e (OneKey k) (registered (h_pres h) ''delete'') = None
        then [DsDelete (OneKey k)] else [])"
  by (cases "ds_delete e (OneKey k)")
     (simp_all add: stopped_trace_def is_delete_def filter_map comp_def)

text \<open>
  C3, as stated, fails where a hook reports an error: with a pre-hook registered for
  \<open>delete\<close> that rejects, the query finds two entities and no delete is issued at all.
\<close>

theorem deleteAll_veto_counterexample:
  "has_own (h_pres pre_hook_3) ''delete'' \<and>
   run_query (two_things (\<lambda>n k. Some (JStr ''veto''))) JUndefined JUndefined
     = Inr [thing_key 1, thing_key 2] \<and>
   deleteAll (two_things (\<lambda>n k. Some (JStr ''veto''))) pre_hook_3 ''Thing'' JUndefined JUndefined
     = ([ExecPre 3 (OneKey (thing_key 1))], CbError (ErrValue (JStr ''veto'')))"
  by (simp add: deleteAll_def delete_def Let_def has_own_def registered_def pre_hook_3_def
      two_things_def truthy_def)

text \<open>
  C3, amended. For a \<open>deleteAll\<close> whose query runs (the ancestors are absent, an
  array or a string) and finds the keys \<open>ks\<close>: with no hook
  registered for \<open>delete\<close>, the only call is one batch delete with all the keys. With
  a hook registered, the entities are taken one at a time in query order, each with
  its pre-hooks, its single delete and its post-hooks, in that order. When no hook
  and no delete reports an error, these are all the events, so that every key is
  deleted, each hook runs once for each key, and the callback reports success. When
  \<open>k\<close> is the first key on which a hook or the delete reports an error, the keys
  before it are handled in full, then come the events of \<open>k\<close> up to the error: its
  pre-hooks up to the one that reports it, and no delete of \<open>k\<close>; or all its pre-hooks
  and its delete, which reports it; or these and its post-hooks up to the one that
  reports it. Nothing follows: the keys after \<open>k\<close> are not deleted and no hook runs
  on them, and the callback gets that error. In every case the deletes issued are
  single deletes of a leading part of \<open>ks\<close>.
\<close>

theorem deleteAll_batch_or_series:
  assumes "\<not> truthy ancestors \<or> has_slice ancestors"
    and "run_query e ancestors namespace = Inr ks"
  shows "(\<not> has_own (h_pres h) ''delete'' \<and> \<not> has_own (h_posts h) ''delete'' \<longrightarrow>
           fst (deleteAll e h kind ancestors namespace) = [DsDelete (ManyKeys ks)]) \<and>
         (has_own (h_pres h) ''delete'' \<or> has_own (h_posts h) ''delete'' \<longrightarrow>
           (\<exists>m\<le>length ks. filter is_delete (fst (deleteAll e h kind ancestors namespace))
              = map (\<lambda>k. DsDelete (OneKey k)) (take m ks))) \<and>
         ((has_own (h_pres h) ''delete'' \<or> has_own (h_posts h) ''delete'') \<and>
          list_all (hooks_pass e h) ks \<longrightarrow>
            fst (deleteAll e h kind ancestors namespace) = concat (map (delete_trace h) ks) \<and>
            filter is_delete (fst (deleteAll e h kind ancestors namespace))
              = map (\<lambda>k. DsDelete (OneKey k)) ks \<and>
            snd (deleteAll e h kind ancestors namespace)
              = CbOk (''All '' @ kind @ '' deleted successfully.'')) \<and>
         ((has_own (h_pres h) ''delete'' \<or> has_own (h_posts h) ''delete'') \<and>
          ks = front @ k # rest \<and> list_all (hooks_pass e h) front \<and> \<not> hooks_pass e h k \<longrightarrow>
            (\<exists>x. stopped_error e h k = Some x \<and>
                 deleteAll e h kind ancestors namespace
                   = (concat (map (delete_trace h) front) @ stopped_trace e h k,
                      CbError (ErrValue x))) \<and>
            filter is_delete (fst (deleteAll e h kind ancestors namespace))
              = map (\<lambda>k. DsDelete (OneKey k))
                  (front @ (if hooks_error e (OneKey k) (registered (h_pres h) ''delete'') = None
                          then [k] else [])))"
proof (intro conjI impI)
  assume a: "\<not> has_own (h_pres h) ''delete'' \<and> \<not> has_own (h_posts h) ''delete''"
  then have "map_of (h_pres h) ''delete'' = None" "map_of (h_posts h) ''delete'' = None"
    by (simp_all add: has_own_def map_of_eq_None_iff)
  then have "registered (h_pres h) ''delete'' = []" "registered (h_posts h) ''delete'' = []"
    by (simp_all add: registered_def)
  then have "fst (delete e h kind JNull JNull JNull JNull (Some (ManyKeys ks))) = [DsDelete (ManyKeys ks)]"
    by (cases "ds_delete e (ManyKeys ks)") (simp_all add: delete_def Let_def)
  then show "fst (deleteAll e h kind ancestors namespace) = [DsDelete (ManyKeys ks)]"
    using a assms
    by (cases "delete e h kind JNull JNull JNull JNull (Some (ManyKeys ks))";
        cases "snd (delete e h kind JNull JNull JNull JNull (Some (ManyKeys ks)))")
       (simp_all add: deleteAll_def)
next
  assume a: "has_own (h_pres h) ''delete'' \<or> has_own (h_posts h) ''delete''"
  obtain evs r where s: "eachSeries e h kind ks = (evs, r)" by (cases "eachSeries e h kind ks")
  have "fst (deleteAll e h kind ancestors namespace) = evs"
    using a assms s by (auto simp: deleteAll_def split: option.splits)
  then show "\<exists>m\<le>length ks. filter is_delete (fst (deleteAll e h kind ancestors namespace))
              = map (\<lambda>k. DsDelete (OneKey k)) (take m ks)"
    using eachSeries_prefix[of ks e h kind] s by simp
next
  assume a: "(has_own (h_pres h) ''delete'' \<or> has_own (h_posts h) ''delete'') \<and> list_all (hooks_pass e h) ks"
  then have s: "eachSeries e h kind ks = (concat (map (delete_trace h) ks), None)"
    by (simp add: eachSeries_pass)
  show "fst (deleteAll e h kind ancestors namespace) = concat (map (delete_trace h) ks)"
    using a assms s by (auto simp: deleteAll_def)
  then show "filter is_delete (fst (deleteAll e h kind ancestors namespace)) = map (\<lambda>k. DsDelete (OneKey k)) ks"
    by (simp add: deletes_of_traces)
  show "snd (deleteAll e h kind ancestors namespace) = CbOk (''All '' @ kind @ '' deleted successfully.'')"
    using a assms s by (auto simp: deleteAll_def)
next
  assume a: "(has_own (h_pres h) ''delete'' \<or> has_own (h_posts h) ''delete'') \<and>
          ks = front @ k # rest \<and> list_all (hooks_pass e h) front \<and> \<not> hooks_pass e h k"
  then obtain x where x: "stopped_error e h k = Some x"
    and s: "eachSeries e h kind ks
              = (concat (map (delete_trace h) front) @ stopped_trace e h k, Some (ErrValue x))"
    using eachSeries_stopped[of e h front k kind rest] by auto
  have d: "deleteAll e h kind ancestors namespace
             = (concat (map (delete_trace h) front) @ stopped_trace e h k, CbError (ErrValue x))"
    using a assms s by (auto simp: deleteAll_def)
  with x show "\<exists>x. stopped_error e h k = Some x \<and>
                 deleteAll e h kind ancestors namespace
                   = (concat (map (delete_trace h) front) @ stopped_trace e h k,
                      CbError (ErrValue x))"
    by blast
  show "filter is_delete (fst (deleteAll e h kind ancestors namespace))
              = map (\<lambda>k. DsDelete (OneKey k))
                  (front @ (if hooks_error e (OneKey k) (registered (h_pres h) ''delete'') = None
                          then [k] else []))"
    by (simp add: d deletes_of_traces stopped_trace_deletes)
qed

theorem deleteAll_batch_or_series_witness:
  "fst (deleteAll (two_things (\<lambda>n k. None)) no_hooks ''Thing'' JUndefined JUndefined)
     = [DsDelete (ManyKeys [thing_key 1, thing_key 2])] \<and>
   fst (deleteAll (two_things (\<lambda>n k. None)) post_hook_7 ''Thing'' JUndefined JUndefined)
     = [DsDelete (OneKey (thing_key 1)), ExecPost 7 (OneKey (thing_key 1)),
        DsDelete (OneKey (thing_key 2)), ExecPost 7 (OneKey (thing_key 2))] \<and>
   deleteAll (two_things veto_thing_2) pre_hook_3 ''Thing'' JUndefined JUndefined
     = ([ExecPre 3 (OneKey (thing_key 1)), DsDelete (OneKey (thing_key 1)),
         ExecPre 3 (OneKey (thing_key 2))],
        CbError (ErrValue (JStr ''veto'')))"
  using deleteAll_batch_or_series [where e = "two_things (\<lambda>n k. None)" and h = no_hooks
      and ancestors = JUndefined and namespace = JUndefined and kind = "''Thing''"
      and ks = "[thing_key 1, thing_key 2]"]
    deleteAll_batch_or_series [where e = "two_things (\<lambda>n k. None)" and h = post_hook_7
      and ancestors = JUndefined and namespace = JUndefined and kind = "''Thing''"
      and ks = "[thing_key 1, thing_key 2]"]
    deleteAll_batch_or_series [where e = "two_things veto_thing_2" and h = pre_hook_3
      and ancestors = JUndefined and namespace = JUndefined and kind = "''Thing''"
      and ks = "[thing_key 1, thing_key 2]" and front = "[thing_key 1]" and k = "thing_key 2"
      and rest = "[]"]
  by (simp add: two_things_def no_hooks_def post_hook_7_def pre_hook_3_def veto_thing_2_def
      has_own_def hooks_pass_def registered_def delete_trace_def stopped_trace_def
      stopped_error_def hooks_error_def hooks_run_def thing_key_def truthy_def)

section \<open>Identifiers and keys\<close>

lemma number_of_small: "\<bar>q\<bar> < 2 ^ 53 \<Longrightarrow> number_of q = JNum q"
  by (simp add: number_of_def double_overflow_def)

lemmas parse_simps =
  parseId_def isFinite_def to_number_def string_to_number_def js_trim_def prefixed_literal_def
  unsigned_decimal_def exponent_part_def scale10_def parseInt10_def parseInt_string_def
  trim_start_def is_ws_def is_digit_def digit_val_def digits_value_def number_of_small

lemma nat_digits_small: "n < 10 \<Longrightarrow> nat_digits n = [''0123456789'' ! n]"
  by (simp add: nat_digits.simps)

lemma parseId_123: "parseId (JStr ''123'') = JNum 123"
  by (simp add: parse_simps)

lemma parseId_abc: "parseId (JStr ''abc'') = JStr ''abc''"
  by (simp add: parse_simps)

lemma parseId_fraction: "parseId (JStr ''1.5'') = JNum 1"
  by (simp add: parse_simps)

lemma parseId_hex: "parseId (JStr ''0x10'') = JNum 0"
  by (simp add: parse_simps)

lemma parseId_blank: "parseId (JStr '''') = JNaN"
  by (simp add: parse_simps)

lemma parseId_small_integer:
  "is_integer q \<Longrightarrow> \<bar>q\<bar> < 10 ^ 21 \<Longrightarrow> parseId (JNum q) = JNum q"
  by (cases "q < 0")
     (auto simp: parseId_def isFinite_def to_number_def parseInt10_def num_to_int_def
        is_integer_def abs_if not_less divide_less_eq)

lemma parseId_undefined: "parseId JUndefined = JUndefined"
  by (simp add: parseId_def isFinite_def to_number_def)

text \<open>
  C4 at concrete identifiers. \<open>'123'\<close> becomes the number 123, \<open>'abc'\<close> stays a string,
  and an undefined or null identifier gives the path \<open>[kind]\<close>, as the claim says. But
  \<open>'1.5'\<close> and \<open>'0x10'\<close>, which are not whole numbers in decimal notation, are not kept:
  they become the numbers 1 and 0; and the empty string becomes NaN.
\<close>

theorem key_identifier_coercion:
  "key ''Kind'' (JStr ''123'') JUndefined JUndefined
     = OneKey \<lparr>key_namespace = None, key_path = [JStr ''Kind'', JNum 123]\<rparr> \<and>
   key ''Kind'' (JStr ''abc'') JUndefined JUndefined
     = OneKey \<lparr>key_namespace = None, key_path = [JStr ''Kind'', JStr ''abc'']\<rparr> \<and>
   key ''Kind'' JUndefined JUndefined JUndefined
     = OneKey \<lparr>key_namespace = None, key_path = [JStr ''Kind'']\<rparr> \<and>
   key ''Kind'' JNull JUndefined JUndefined
     = OneKey \<lparr>key_namespace = None, key_path = [JStr ''Kind'']\<rparr> \<and>
   key ''Kind'' (JStr ''1.5'') JUndefined JUndefined
     = OneKey \<lparr>key_namespace = None, key_path = [JStr ''Kind'', JNum 1]\<rparr> \<and>
   key ''Kind'' (JStr ''0x10'') JUndefined JUndefined
     = OneKey \<lparr>key_namespace = None, key_path = [JStr ''Kind'', JNum 0]\<rparr> \<and>
   key ''Kind'' (JStr '''') JUndefined JUndefined
     = OneKey \<lparr>key_namespace = None, key_path = [JStr ''Kind'', JNaN]\<rparr>"
  by (simp add: key_def getKey_def getPath_def absent_def parseId_123 parseId_abc
      parseId_fraction parseId_hex parseId_blank)

section \<open>The schema\<close>

lemma declare_paths_throws:
  "(\<exists>m. declare_paths ps obj = Inl m) \<longleftrightarrow> (\<exists>k\<in>set (map fst obj). reserved_lookup k)"
proof (induction ps obj rule: declare_paths.induct)
  case (1 ps)
  then show ?case by simp
next
  case (2 ps k d rest)
  then show ?case by (cases "reserved_lookup k") simp_all
qed

lemma update_append_new:
  "k \<notin> set (map fst ps) \<Longrightarrow> AList.update k v ps = ps @ [(k, v)]"
  by (induction ps) auto

lemma declare_paths_stores:
  "distinct (map fst (ps @ obj)) \<Longrightarrow> \<not> (\<exists>k\<in>set (map fst obj). reserved_lookup k) \<Longrightarrow>
   declare_paths ps obj = Inr (ps @ obj)"
proof (induction obj arbitrary: ps)
  case Nil
  then show ?case by simp
next
  case (Cons kd obj)
  obtain k d where kd: "kd = (k, d)" by (cases kd)
  have "AList.update k d ps = ps @ [(k, d)]"
    using Cons.prems kd by (intro update_append_new) auto
  moreover have "declare_paths (ps @ [(k, d)]) obj = Inr ((ps @ [(k, d)]) @ obj)"
    using Cons.prems kd by (intro Cons.IH) auto
  ultimately show ?case using Cons.prems kd by simp
qed

text \<open>
  What the constructor does for every mapping of distinct names: it throws exactly when
  a name is in \<open>reserved\<close> or is the name of a member of \<open>Object.prototype\<close>, and
  otherwise the paths of the schema are the mapping as given.
\<close>

lemma Schema_throws_or_stores:
  assumes "distinct (map fst obj)"
  shows "(if \<exists>k\<in>set (map fst obj). k \<in> set reserved \<or> k \<in> set object_prototype_names
          then \<exists>m. Schema obj opts = Inl m
          else \<exists>s. Schema obj opts = Inr s \<and> paths s = obj)"
proof (cases "\<exists>k\<in>set (map fst obj). reserved_lookup k")
  case True
  then obtain m where "declare_paths [] obj = Inl m"
    using declare_paths_throws[of "[]" obj] by blast
  with True show ?thesis by (auto simp: Schema_def reserved_lookup_def)
next
  case False
  then have "declare_paths [] obj = Inr obj"
    using declare_paths_stores[of "[]" obj] assms by simp
  with False show ?thesis
    by (auto simp: Schema_def reserved_lookup_def pre_def push_pre_def ensure_queue_def
        hasOwnProperty_def empty_dict_def has_own_def is_entity_hook_def dict_get_def
        dict_set_def)
qed

text \<open>
  C7 at concrete names. \<open>constructor\<close> and \<open>toString\<close> are not in the reserved set,
  yet a schema that declares the field \<open>constructor\<close> is refused, and so is setting the
  path \<open>toString\<close>; a reserved name such as \<open>ds\<close> is refused, and a mapping without
  such names is stored as it is.
\<close>

theorem Schema_refuses_inherited_names:
  "''constructor'' \<notin> set reserved \<and>
   Schema [(''constructor'', [(''type'', JStr ''string'')])] []
     = Inl (pathname_error ''constructor'') \<and>
   ''toString'' \<notin> set reserved \<and>
   path user_schema ''toString'' (Some [(''type'', JStr ''string'')])
     = Inl (pathname_error ''toString'') \<and>
   Schema [(''ds'', [])] [] = Inl (pathname_error ''ds'') \<and>
   (\<exists>s. Schema user_paths [] = Inr s \<and> paths s = user_paths)"
  by (simp add: Schema_def reserved_lookup_def reserved_def object_prototype_names_def
      path_def user_paths_def pre_def push_pre_def ensure_queue_def hasOwnProperty_def
      empty_dict_def has_own_def is_entity_hook_def dict_get_def dict_set_def)

text \<open>
  Declaring a virtual under a name other than \<open>__proto__\<close> and \<open>hasOwnProperty\<close>, when
  the call returns: the first declaration takes one new reference when the name was
  not declared (none when it was), and a second declaration returns the handle of the
  first and changes nothing.
\<close>

lemma virtual_idempotent:
  assumes "name \<noteq> ''__proto__''" and "name \<noteq> ''hasOwnProperty''"
    and "virtual name (s, n) = Inr (h1, st1)"
  shows "virtual name st1 = Inr (h1, st1) \<and> h1 \<noteq> None \<and>
         snd st1 = (if dict_has_own (virtuals s) name then n else Suc n)"
proof -
  have nh: "\<not> has_own (own (virtuals s)) ''hasOwnProperty''"
    using assms(3) by (auto simp: virtual_def hasOwnProperty_def split: if_splits)
  show ?thesis
  proof (cases "dict_has_own (virtuals s) name")
    case True
    then have "map_of (own (virtuals s)) name \<noteq> None"
      by (simp add: dict_has_own_def has_own_def map_of_eq_None_iff)
    with True assms nh show ?thesis
      by (auto simp: virtual_def hasOwnProperty_def dict_has_own_def dict_get_def)
  next
    case False
    let ?vs = "dict_set (virtuals s) name \<lparr>vt_ref = n, vt_name = name\<rparr>"
    have st1: "st1 = (s\<lparr>virtuals := ?vs\<rparr>, Suc n)" and h1: "h1 = dict_get ?vs name"
      using False assms nh
      by (auto simp: virtual_def hasOwnProperty_def dict_has_own_def Let_def)
    have own: "has_own (own ?vs) name"
      using False assms(1)
      by (simp add: dict_set_def dict_has_own_def has_own_def AList.dom_update)
    have nh': "\<not> has_own (own ?vs) ''hasOwnProperty''"
      using nh assms(1,2)
      by (simp add: dict_set_def dict_has_own_def has_own_def AList.dom_update)
    have got: "dict_get ?vs name = Some \<lparr>vt_ref = n, vt_name = name\<rparr>"
      using False assms(1)
      by (simp add: dict_set_def dict_get_def dict_has_own_def AList.update_conv')
    show ?thesis
      using False own nh' got by (simp add: st1 h1 virtual_def hasOwnProperty_def)
  qed
qed

text \<open>
  Under the name \<open>hasOwnProperty\<close> the first declaration stores the handle as an own
  property, which hides the method: every later call of \<open>virtual\<close> throws.
\<close>

lemma virtual_hasOwnProperty_throws:
  "virtual ''hasOwnProperty'' (user_schema, 10)
     = Inr (Some \<lparr>vt_ref = 10, vt_name = ''hasOwnProperty''\<rparr>,
            (user_schema\<lparr>virtuals :=
               \<lparr>own = [(''hasOwnProperty'', \<lparr>vt_ref = 10, vt_name = ''hasOwnProperty''\<rparr>)],
                proto = None\<rparr>\<rparr>, 11)) \<and>
   virtual name
       (user_schema\<lparr>virtuals :=
          \<lparr>own = [(''hasOwnProperty'', \<lparr>vt_ref = 10, vt_name = ''hasOwnProperty''\<rparr>)],
           proto = None\<rparr>\<rparr>, 11)
     = Inl not_a_function"
  by (simp add: virtual_def Let_def hasOwnProperty_def has_own_def dict_set_def dict_get_def
      user_schema_def empty_dict_def)

text \<open>
  C8 at the name \<open>__proto__\<close>: the assignment \<open>this.virtuals['__proto__'] = ...\<close> adds no
  own property, so the second declaration creates a handle again. The two handles
  returned differ, and two references are taken.
\<close>

theorem virtual_proto_twice:
  "virtual ''__proto__'' (user_schema, 10)
     = Inr (Some \<lparr>vt_ref = 10, vt_name = ''__proto__''\<rparr>,
        (user_schema\<lparr>virtuals := \<lparr>own = [], proto = Some \<lparr>vt_ref = 10, vt_name = ''__proto__''\<rparr>\<rparr>\<rparr>, 11)) \<and>
   virtual ''__proto__''
       (user_schema\<lparr>virtuals := \<lparr>own = [], proto = Some \<lparr>vt_ref = 10, vt_name = ''__proto__''\<rparr>\<rparr>\<rparr>, 11)
     = Inr (Some \<lparr>vt_ref = 11, vt_name = ''__proto__''\<rparr>,
        (user_schema\<lparr>virtuals := \<lparr>own = [], proto = Some \<lparr>vt_ref = 11, vt_name = ''__proto__''\<rparr>\<rparr>\<rparr>, 12))"
  by (simp add: virtual_def Let_def hasOwnProperty_def has_own_def dict_set_def dict_get_def
      user_schema_def empty_dict_def)

section \<open>get\<close>

lemma insert_by_insort:
  "insert_by (\<lambda>a b. f a - f b) x xs = insort_key f x xs"
  by (induction xs) auto

lemma js_sort_sort_key: "js_sort (\<lambda>a b. f a - f b) xs = sort_key f xs"
  by (induction xs) (simp_all add: js_sort_def insert_by_insort)

lemma parseInt_string_not_array: "parseInt_string x \<noteq> JArray i xs"
  by (simp add: parseInt_string_def number_of_def Let_def)

lemma array_int_not_array: "array_int ys \<noteq> JArray i xs"
  by (induction ys rule: array_int.induct)
     (auto simp: parseInt_string_not_array split: jsval.splits)

lemma parseInt10_not_array: "parseInt10 v \<noteq> JArray i xs"
  by (cases v) (simp_all add: parseInt10_def parseInt_string_not_array array_int_not_array)

lemma parseId_array: "parseId v = JArray i xs \<Longrightarrow> v = JArray i xs"
  by (cases "isFinite v") (simp_all add: parseId_def parseInt10_not_array)

text \<open>
  What \<open>preserveOrder\<close> does in batch mode whenever the callback is reached with the
  entities: they are sorted, stably, by the position that \<open>entityKey.id\<close> has in the
  list of identifiers as passed (-1 when it is not there).
\<close>

lemma get_preserveOrder_sorts:
  assumes r: "get ds_get s kind (JArray i ids) ancestors namespace transaction opts = CbOk r"
    and po: "truthy (prop_get opts ''preserveOrder'')"
  shows "\<exists>es rest.
           ds_get (key kind (parseId (JArray i ids)) ancestors namespace) = Inr (ManyEntities es # rest) \<and>
           r = Entities (sort_key (\<lambda>a. indexOf ids (key_id (entityKey a)))
                          (map (from_fetched s kind) es))"
proof -
  let ?k = "key kind (parseId (JArray i ids)) ancestors namespace"
  have tx: "\<not> (truthy transaction \<and> constructor_name transaction \<noteq> ''Transaction'')"
  proof
    assume "truthy transaction \<and> constructor_name transaction \<noteq> ''Transaction''"
    then have "get ds_get s kind (JArray i ids) ancestors namespace transaction opts
                 = Threw ''Transaction needs to be a gcloud Transaction''"
      by (simp add: get_def Let_def)
    with r show False by simp
  qed
  show ?thesis
  proof (cases "ds_get ?k")
    case (Inl x)
    with r tx show ?thesis by (simp add: get_def Let_def)
  next
    case (Inr data)
    show ?thesis
    proof (cases data)
      case Nil
      with r tx Inr show ?thesis by (simp add: get_def Let_def split: if_splits)
    next
      case (Cons first rest)
      show ?thesis
      proof (cases first)
        case (OneEntity v ek)
        with r tx Inr Cons show ?thesis by (simp add: get_def Let_def is_array_def)
      next
        case (ManyEntities es)
        show ?thesis
        proof (cases "\<exists>j ids'. parseId (JArray i ids) = JArray j ids'")
          case True
          then obtain j ids' where p: "parseId (JArray i ids) = JArray j ids'" by blast
          then have "j = i" "ids' = ids"
            using parseId_array[OF p] by simp_all
          with r tx Inr Cons ManyEntities po p show ?thesis
            by (simp add: get_def Let_def is_array_def js_sort_sort_key)
        next
          case False
          then have "(case parseId (JArray i ids) of
                        JArray _ ids \<Rightarrow> CbOk (Entities
                                 (js_sort (\<lambda>a b. indexOf ids (key_id (entityKey a))
                                                  - indexOf ids (key_id (entityKey b)))
                                    (map (from_fetched s kind) es)))
                      | _ \<Rightarrow> NoCallback) = NoCallback"
            by (cases "parseId (JArray i ids)") simp_all
          with r tx Inr Cons ManyEntities po show ?thesis
            by (simp add: get_def Let_def is_array_def)
        qed
      qed
    qed
  qed
qed

text \<open>
  C6 at concrete identifiers. Asked for the things \<open>['b', 'a']\<close> with \<open>preserveOrder\<close>,
  \<open>get\<close> builds the keys with the names \<open>b\<close> and \<open>a\<close>, the datastore answers with the
  entities in the order \<open>a\<close>, \<open>b\<close>, and they are returned in that order: the comparator
  reads \<open>entityKey.id\<close>, which a key with a name does not have. Asked for \<open>['2', '1']\<close>,
  the keys hold the numbers 2 and 1 and the list of identifiers holds strings, so no
  entity is found in it and the order 1, 2 of the datastore stays. Asked for the list
  \<open>[5]\<close>, \<open>parseId\<close> turns the list into the number 5, one key is fetched, and
  \<open>entity.map\<close> throws on the entity. With the numbers \<open>[2, 1]\<close> the entities are
  returned in the order 2, 1.
\<close>

theorem get_preserveOrder_string_identifiers:
  "key ''Thing'' (parseId (JArray 0 [JStr ''b'', JStr ''a''])) JUndefined JUndefined
     = ManyKeys [named_key ''b'', named_key ''a''] \<and>
   get things_get thing_schema ''Thing'' (JArray 0 [JStr ''b'', JStr ''a''])
       JUndefined JUndefined JUndefined [(''preserveOrder'', JBool True)]
     = CbOk (Entities [from_fetched thing_schema ''Thing'' (named_thing 21 ''a''),
                       from_fetched thing_schema ''Thing'' (named_thing 22 ''b'')]) \<and>
   key ''Thing'' (parseId (JArray 0 [JStr ''2'', JStr ''1''])) JUndefined JUndefined
     = ManyKeys [thing_key 2, thing_key 1] \<and>
   get things_get thing_schema ''Thing'' (JArray 0 [JStr ''2'', JStr ''1''])
       JUndefined JUndefined JUndefined [(''preserveOrder'', JBool True)]
     = CbOk (Entities [from_fetched thing_schema ''Thing'' (thing 11 1),
                       from_fetched thing_schema ''Thing'' (thing 12 2)]) \<and>
   get things_get thing_schema ''Thing'' (JArray 0 [JNum 5])
       JUndefined JUndefined JUndefined [(''preserveOrder'', JBool True)]
     = NoCallback \<and>
   get things_get thing_schema ''Thing'' (JArray 0 [JNum 2, JNum 1])
       JUndefined JUndefined JUndefined [(''preserveOrder'', JBool True)]
     = CbOk (Entities [from_fetched thing_schema ''Thing'' (thing 12 2),
                       from_fetched thing_schema ''Thing'' (thing 11 1)])"
proof -
  have p: "parseId (JArray 0 [JStr ''2'', JStr ''1'']) = JArray 0 [JStr ''2'', JStr ''1'']"
    "parseId (JArray 0 [JStr ''b'', JStr ''a'']) = JArray 0 [JStr ''b'', JStr ''a'']"
    "parseId (JArray 0 [JNum 2, JNum 1]) = JArray 0 [JNum 2, JNum 1]"
    "parseId (JArray 0 [JNum 5]) = JNum 5"
    "parseId (JNum 5) = JNum 5" "parseId (JNum 2) = JNum 2" "parseId (JNum 1) = JNum 1"
    "parseId (JStr ''2'') = JNum 2" "parseId (JStr ''1'') = JNum 1"
    "parseId (JStr ''b'') = JStr ''b''" "parseId (JStr ''a'') = JStr ''a''"
    by (simp_all add: parse_simps num_to_int_def is_integer_def nat_digits_small)
  have k: "key_id (entityKey (from_fetched thing_schema ''Thing'' (thing i n))) = JNum n" for i n
    by (simp add: from_fetched_def entity_of_def thing_def thing_key_def key_id_def)
  have n: "key_id (entityKey (from_fetched thing_schema ''Thing'' (named_thing i x))) = JUndefined"
    for i x
    by (simp add: from_fetched_def entity_of_def named_thing_def named_key_def key_id_def)
  show ?thesis
    by (simp add: get_def Let_def is_array_def key_def getKey_def getPath_def absent_def p
        things_get_def thing_key_def named_key_def truthy_def prop_get_def js_sort_def k n
        indexOf_def strict_eq_def)
qed

section \<open>update\<close>

text \<open>
  Without \<open>options.replace\<close>, the data passed to \<open>update\<close> is never read: the call
  does the same whatever the data.
\<close>

lemma update_data_unused:
  assumes "\<not> (case opts of JObject _ _ os \<Rightarrow> prop_get os ''replace'' = JBool True | _ \<Rightarrow> False)"
  shows "update e t now s kind ident data ancestors namespace transaction opts
       = update e t now s kind ident data' ancestors namespace transaction opts"
  using assms by (simp add: update_def Let_def)

lemmas update_simps =
  update_def key_def getKey_def getPath_def absent_def parseId_def isFinite_def to_number_def
  parseInt10_def num_to_int_def tx_with_def getInTransaction_def thing_key_def thing_def
  strict_eq_def save_in_tx_def model_save_def entity_of_def thing_schema_def default_for_def
  has_own_def save_pres_def dict_get_def run_pre_def prop_get_def truthy_def validate_def
  validate_key_def validate_round_def hides_hasOwnProperty_def hasOwnProperty_def
  hooksTransaction_def Let_def valueIsEmpty_def dict_has_own_def empty_dict_def plain_env_def
  typeValid_def js_typeof_def save_def empty_object_def is_primitive_def constructor_name_def
  done_fn_def rollback_then_done_def onTransaction_def as_error_def is_integer_def
  nat_digits_small fetched_value_def
  check_properties_def check_type_def check_required_def check_format_def check_values_def
  isRequired_def

text \<open>
  C1 at a concrete input. Thing 5 is stored as \<open>{x: 5, y: 0}\<close>; \<open>update(5, {x: 1})\<close>
  fetches it in a transaction, saves \<open>{x: 5, y: 0}\<close> again, and commits: the new value
  of \<open>x\<close> is not in what is saved.
\<close>

theorem update_saves_fetched_entity:
  "update plain_env (tx_with [thing 2 5] JUndefined JUndefined) (JObject 9 (builtin_class ''Date'') []) thing_schema
     ''Thing'' (JNum 5) [(''x'', JNum 1)] JUndefined JUndefined JUndefined JUndefined
   = ([TxRun, TxGet (OneKey (thing_key 5)),
       TxSave (thing_key 5) (JObject 0 object_class [(''x'', JNum 5), (''y'', JNum 0)]),
       TxAddPostHook, TxCommit],
      CbOk ())"
  by (simp add: update_simps)

text \<open>
  What \<open>update\<close> does, without \<open>options.replace\<close>, when no entity is found under the
  key: it rolls back and saves nothing. When the rollback resolves, the callback gets
  an error: what the rollback resolved with when that is truthy; otherwise, when
  \<open>update\<close> opened the transaction itself, it commits next and the callback gets what
  the commit resolved with when that is truthy; otherwise the 404 object. When the
  rollback, or that commit, rejects, the callback is not called.
\<close>

lemma update_absent:
  assumes "key kind (parseId ident) ancestors namespace = OneKey k"
    and "get_result t (OneKey k) = Inr []"
    and "parseId ident \<noteq> JUndefined"
    and "\<not> (case opts of JObject _ _ os \<Rightarrow> prop_get os ''replace'' = JBool True | _ \<Rightarrow> False)"
  shows "absent transaction \<and> run_error t = None \<longrightarrow>
           update e t now s kind ident data ancestors namespace transaction opts
           = (case rollback_result t of
                Inl _ \<Rightarrow> ([TxRun, TxGet (OneKey k), TxRollback], NoCallback)
              | Inr r \<Rightarrow>
                  if truthy r
                  then ([TxRun, TxGet (OneKey k), TxRollback], CbError (ErrValue r))
                  else (case commit_result t of
                          Inl _ \<Rightarrow> ([TxRun, TxGet (OneKey k), TxRollback, TxCommit], NoCallback)
                        | Inr c \<Rightarrow>
                            ([TxRun, TxGet (OneKey k), TxRollback, TxCommit],
                             CbError (absent_error (parseId ident) c))))"
    and "constructor_name transaction = ''Transaction'' \<longrightarrow>
           update e t now s kind ident data ancestors namespace transaction opts
           = (case rollback_result t of
                Inl _ \<Rightarrow> ([TxGet (OneKey k), TxRollback], NoCallback)
              | Inr r \<Rightarrow>
                  ([TxGet (OneKey k), TxRollback], CbError (absent_error (parseId ident) r)))"
proof -
  show "absent transaction \<and> run_error t = None \<longrightarrow>
           update e t now s kind ident data ancestors namespace transaction opts
           = (case rollback_result t of
                Inl _ \<Rightarrow> ([TxRun, TxGet (OneKey k), TxRollback], NoCallback)
              | Inr r \<Rightarrow>
                  if truthy r
                  then ([TxRun, TxGet (OneKey k), TxRollback], CbError (ErrValue r))
                  else (case commit_result t of
                          Inl _ \<Rightarrow> ([TxRun, TxGet (OneKey k), TxRollback, TxCommit], NoCallback)
                        | Inr c \<Rightarrow>
                            ([TxRun, TxGet (OneKey k), TxRollback, TxCommit],
                             CbError (absent_error (parseId ident) c))))"
    using assms
    by (simp add: update_def Let_def getInTransaction_def rollback_then_done_def done_fn_def
        onTransaction_def as_error_def absent_error_def split: sum.splits)
  have "constructor_name transaction = ''Transaction'' \<Longrightarrow> \<not> absent transaction"
    by (auto simp: absent_def constructor_name_def)
  then show "constructor_name transaction = ''Transaction'' \<longrightarrow>
           update e t now s kind ident data ancestors namespace transaction opts
           = (case rollback_result t of
                Inl _ \<Rightarrow> ([TxGet (OneKey k), TxRollback], NoCallback)
              | Inr r \<Rightarrow>
                  ([TxGet (OneKey k), TxRollback], CbError (absent_error (parseId ident) r)))"
    using assms
    by (simp add: update_def Let_def getInTransaction_def rollback_then_done_def done_fn_def
        onTransaction_def as_error_def absent_error_def split: sum.splits)
qed

text \<open>
  With an array of identifiers, \<open>update\<close> fetches the array of the entities and saves
  it as the data of a new entity: here the validation refuses its properties \<open>0\<close> and
  \<open>1\<close>, and the transaction is rolled back. With \<open>options.replace\<close> the constructor
  of the entity throws on the array of keys.
\<close>

lemma update_array_of_identifiers:
  "update plain_env things_tx (JObject 9 (builtin_class ''Date'') []) thing_schema ''Thing''
     (JArray 3 [JNum 1, JNum 2]) [(''x'', JNum 7)] JUndefined JUndefined JUndefined JUndefined
   = ([TxRun, TxGet (ManyKeys [thing_key 1, thing_key 2]), TxRollback, TxCommit],
      CbError (ErrValidation (PropertiesError ''Property not allowed {1} for Thing Entity''))) \<and>
   update plain_env things_tx (JObject 9 (builtin_class ''Date'') []) thing_schema ''Thing''
     (JArray 3 [JNum 1, JNum 2]) [(''x'', JNum 7)] JUndefined JUndefined JUndefined
     (JObject 2 object_class [(''replace'', JBool True)])
   = ([], Threw key_error)"
  by (simp add: update_simps things_tx_def indexed_def upt_conv_Cons numeral_2_eq_2 errors_set_def
      is_array_def)

text \<open>
  C2 at a concrete input: no thing is stored, \<open>update(5, {x: 1})\<close> opens a transaction.
  When \<open>rollback()\<close> resolves with a value, here the array with the response of the
  datastore, the callback gets that value as its error, not the 404 object. When it
  resolves with undefined (and so does \<open>commit()\<close>), the callback gets the 404 object,
  after a commit of the transaction that was rolled back. In both cases a rollback is
  issued and nothing is saved.
\<close>

theorem update_absent_error_value:
  "update plain_env (tx_with [] (JArray 9 [JObject 8 object_class []]) JUndefined) (JObject 9 (builtin_class ''Date'') [])
     thing_schema ''Thing'' (JNum 5) [(''x'', JNum 1)] JUndefined JUndefined JUndefined JUndefined
   = ([TxRun, TxGet (OneKey (thing_key 5)), TxRollback],
      CbError (ErrValue (JArray 9 [JObject 8 object_class []]))) \<and>
   update plain_env (tx_with [] JUndefined JUndefined) (JObject 9 (builtin_class ''Date'') [])
     thing_schema ''Thing'' (JNum 5) [(''x'', JNum 1)] JUndefined JUndefined JUndefined JUndefined
   = ([TxRun, TxGet (OneKey (thing_key 5)), TxRollback, TxCommit],
      CbError (Err404 ''Entity {5} to update not found''))"
  by (simp add: update_simps)

section \<open>validate\<close>

lemma map_of_errors_set:
  "map_of (errors_set errs y v) x =
     (if y \<noteq> ''__proto__'' \<and> x = y then Some v else map_of errs x)"
  by (simp add: errors_set_def AList.update_conv')

lemma keeps_refl: "keeps k errs errs"
  by (simp add: keeps_def)

lemma keeps_trans: "keeps k a b \<Longrightarrow> keeps k b c \<Longrightarrow> keeps k a c"
  unfolding keeps_def by metis

lemma keeps_set_self: "keeps k errs (errors_set errs k v)"
  by (simp add: keeps_def map_of_errors_set)

lemma keeps_set_properties: "keeps k errs (errors_set errs ''properties'' (PropertiesError m))"
  by (simp add: keeps_def map_of_errors_set required_error_def)

lemma keeps_set_datetime: "keeps k errs (errors_set errs ''datetime'' (DateTimeError m))"
  by (simp add: keeps_def map_of_errors_set required_error_def)

lemma keeps_check_properties: "keeps k errs (check_properties kind k skip shp errs)"
  by (simp add: check_properties_def keeps_refl keeps_set_properties)

lemma validateDateTime_error: "validateDateTime env v k = Some x \<Longrightarrow> \<exists>m. x = DateTimeError m"
  by (auto simp: validateDateTime_def split: if_splits jsval.splits)

lemma keeps_check_type: "keeps k errs (check_type env k skip shp emp d pv errs)"
proof (cases "validateDateTime env pv k")
  case None
  then show ?thesis by (simp add: check_type_def keeps_refl keeps_set_self)
next
  case (Some x)
  then obtain m where "x = DateTimeError m" using validateDateTime_error by blast
  with Some show ?thesis
    by (simp add: check_type_def keeps_refl keeps_set_self keeps_set_datetime)
qed

lemma keeps_check_required: "keeps k errs (check_required k skip req emp errs)"
  by (simp add: check_required_def keeps_refl keeps_set_self)

lemma keeps_check_format: "check_format env k skip shp d cur errs = Inr errs' \<Longrightarrow> keeps k errs errs'"
  by (auto simp: check_format_def keeps_refl keeps_set_self split: if_splits option.splits)

lemma keeps_check_values: "check_values k skip shp d cur errs = Inr errs' \<Longrightarrow> keeps k errs errs'"
  by (auto simp: check_values_def keeps_refl keeps_set_self split: if_splits jsval.splits)

lemma validate_key_round:
  "validate_key env s kind k st = Inr st' \<Longrightarrow> validate_round env s kind k st = Inr st'"
  by (simp add: validate_key_def split: if_splits)

lemma validate_round_keeps:
  assumes "validate_round env s kind k st = Inr st'"
  shows "keeps k (snd st) (snd st')"
proof -
  let ?shp = "has_own (paths s) k"
  let ?d = "case map_of (paths s) k of None \<Rightarrow> [] | Some d \<Rightarrow> d"
  let ?raw = "prop_get (fst st) k"
  let ?pv = "case ?raw of JStr x \<Rightarrow> JStr (js_trim x) | _ \<Rightarrow> ?raw"
  let ?data1 = "if dict_has_own (virtuals s) k then AList.delete k (fst st) else fst st"
  let ?skip = "dict_has_own (virtuals s) k \<or>
                  (\<not> ?shp \<and> strict_eq (prop_get (options s) ''explicitOnly'') (JBool False))"
  let ?e1 = "check_properties kind k ?skip ?shp (snd st)"
  let ?e2 = "check_type env k ?skip ?shp (valueIsEmpty ?raw) ?d ?pv ?e1"
  let ?e3 = "check_required k ?skip (isRequired ?shp ?d) (valueIsEmpty ?raw) ?e2"
  from assms obtain e4 where e4: "check_format env k ?skip ?shp ?d (prop_get ?data1 k) ?e3 = Inr e4"
    by (cases "check_format env k ?skip ?shp ?d (prop_get ?data1 k) ?e3")
       (simp_all add: validate_round_def Let_def)
  with assms obtain e5 where e5: "check_values k ?skip ?shp ?d (prop_get ?data1 k) e4 = Inr e5"
    by (cases "check_values k ?skip ?shp ?d (prop_get ?data1 k) e4")
       (simp_all add: validate_round_def Let_def)
  from assms e4 e5 have s': "snd st' = e5"
    by (auto simp: validate_round_def Let_def)
  have "keeps k (snd st) ?e3"
    by (blast intro: keeps_trans keeps_check_properties keeps_check_type keeps_check_required)
  then show ?thesis
    unfolding s'
    by (blast intro: keeps_trans keeps_check_format[OF e4] keeps_check_values[OF e5])
qed

lemma validate_round_data:
  assumes "validate_round env s kind k st = Inr st'"
  shows "fst st' = (if dict_has_own (virtuals s) k then AList.delete k (fst st) else fst st)"
  using assms by (auto simp: validate_round_def Let_def split: sum.splits)

lemma validate_round_data_other:
  "validate_round env s kind k st = Inr st' \<Longrightarrow> x \<noteq> k \<Longrightarrow> map_of (fst st') x = map_of (fst st) x"
  by (simp add: validate_round_data AList.delete_conv')

lemma validate_keys_other:
  "validate_keys env s kind ks st = Inr st' \<Longrightarrow> x \<notin> set ks \<Longrightarrow>
   map_of (fst st') x = map_of (fst st) x \<and>
   (map_of (snd st) x \<noteq> None \<longrightarrow> map_of (snd st') x \<noteq> None) \<and>
   (x \<noteq> ''properties'' \<and> x \<noteq> ''datetime'' \<longrightarrow> map_of (snd st') x = map_of (snd st) x) \<and>
   (map_of (snd st) x \<noteq> Some (required_error x) \<longrightarrow> map_of (snd st') x \<noteq> Some (required_error x))"
proof (induction ks arbitrary: st)
  case Nil
  then show ?case by simp
next
  case (Cons k ks)
  from Cons.prems obtain st1 where
    k0: "validate_key env s kind k st = Inr st1" and ks: "validate_keys env s kind ks st1 = Inr st'"
    by (cases "validate_key env s kind k st") simp_all
  note k = validate_key_round[OF k0]
  have xk: "x \<noteq> k" and xks: "x \<notin> set ks" using Cons.prems by auto
  note ih = Cons.IH[OF ks xks]
  note kp = validate_round_keeps[OF k, unfolded keeps_def]
  note dt = validate_round_data_other[OF k xk]
  show ?case using ih kp dt xk by metis
qed

lemma validate_keys_append:
  "validate_keys env s kind (xs @ ys) st =
     (case validate_keys env s kind xs st of
        Inl m \<Rightarrow> Inl m
      | Inr st1 \<Rightarrow> validate_keys env s kind ys st1)"
  by (induction xs arbitrary: st) (auto split: sum.splits)

lemma prop_get_True_has_own: "prop_get d x = JBool True \<Longrightarrow> has_own d x"
  by (auto simp: prop_get_def has_own_def map_of_eq_None_iff split: option.splits)
     (metis domI domIff map_of_eq_None_iff)

text \<open>The round for the key of a required field that holds an empty value.\<close>

lemma validate_round_required:
  assumes r: "validate_round env s kind k st = Inr st'"
    and d: "map_of (paths s) k = Some d"
    and req: "prop_get d ''required'' = JBool True"
    and emp: "valueIsEmpty (prop_get (fst st) k)"
    and nv: "\<not> dict_has_own (virtuals s) k"
    and np: "k \<noteq> ''__proto__''"
  shows "map_of (snd st') k \<noteq> None"
    and "\<not> format_rejects env d (prop_get (fst st) k) \<Longrightarrow>
         \<not> values_rejects d (prop_get (fst st) k) \<Longrightarrow>
         map_of (snd st') k = Some (required_error k)"
proof -
  have shp: "has_own (paths s) k"
    using d by (auto simp: has_own_def) (metis domI domIff map_of_eq_None_iff)
  let ?raw = "prop_get (fst st) k"
  let ?pv = "case ?raw of JStr x \<Rightarrow> JStr (js_trim x) | _ \<Rightarrow> ?raw"
  let ?e1 = "check_properties kind k False True (snd st)"
  let ?e2 = "check_type env k False True True d ?pv ?e1"
  let ?e3 = "check_required k False (isRequired True d) True ?e2"
  have e3: "map_of ?e3 k = Some (required_error k)"
    using req np by (simp add: check_required_def isRequired_def prop_get_True_has_own map_of_errors_set)
  from r obtain e4 where e4: "check_format env k False True d ?raw ?e3 = Inr e4"
    using d shp emp nv
    by (cases "check_format env k False True d ?raw ?e3") (simp_all add: validate_round_def Let_def)
  with r obtain e5 where e5: "check_values k False True d ?raw e4 = Inr e5"
    using d shp emp nv
    by (cases "check_values k False True d ?raw e4") (simp_all add: validate_round_def Let_def)
  from r e4 e5 have s': "snd st' = e5"
    using d shp emp nv by (auto simp: validate_round_def Let_def)
  have "map_of e4 k \<noteq> None"
    using keeps_check_format[OF e4] e3 by (auto simp: keeps_def)
  then show "map_of (snd st') k \<noteq> None"
    using keeps_check_values[OF e5] by (auto simp: keeps_def s')
  assume nf: "\<not> format_rejects env d ?raw" and nr: "\<not> values_rejects d ?raw"
  have "e4 = ?e3"
    using e4 nf by (auto simp: check_format_def format_rejects_def split: if_splits option.splits)
  moreover have "e5 = e4"
    using e5 nr by (auto simp: check_values_def values_rejects_def split: if_splits jsval.splits)
  ultimately show "map_of (snd st') k = Some (required_error k)"
    using e3 by (simp add: s')
qed

lemma required_error_other [simp]:
  "required_error k \<noteq> PropertiesError m" "required_error k \<noteq> DateTimeError m"
  "required_error k \<noteq> ValidationError m" "required_error k \<noteq> ValidatorError None m"
  "required_error k \<noteq> ValueError m"
  "PropertiesError m \<noteq> required_error k" "DateTimeError m \<noteq> required_error k"
  "ValidationError m \<noteq> required_error k" "ValidatorError None m \<noteq> required_error k"
  "ValueError m \<noteq> required_error k"
  by (simp_all add: required_error_def)

lemma noreq_set:
  "map_of errs k \<noteq> Some (required_error k) \<Longrightarrow> v \<noteq> required_error k \<Longrightarrow>
   map_of (errors_set errs y v) k \<noteq> Some (required_error k)"
  by (auto simp: map_of_errors_set)

lemma noreq_check_properties:
  "map_of errs k \<noteq> Some (required_error k) \<Longrightarrow>
   map_of (check_properties kind k' skip shp errs) k \<noteq> Some (required_error k)"
  by (simp add: check_properties_def noreq_set)

lemma noreq_check_type:
  assumes "map_of errs k \<noteq> Some (required_error k)"
  shows "map_of (check_type env k' skip shp emp d pv errs) k \<noteq> Some (required_error k)"
proof (cases "validateDateTime env pv k'")
  case None
  with assms show ?thesis by (simp add: check_type_def noreq_set)
next
  case (Some x)
  then obtain m where "x = DateTimeError m" using validateDateTime_error by blast
  with Some assms show ?thesis by (simp add: check_type_def noreq_set)
qed

lemma noreq_check_format:
  "check_format env k' skip shp d cur errs = Inr errs' \<Longrightarrow>
   map_of errs k \<noteq> Some (required_error k) \<Longrightarrow>
   map_of errs' k \<noteq> Some (required_error k)"
  by (auto simp: check_format_def noreq_set split: if_splits option.splits)

lemma noreq_check_values:
  "check_values k' skip shp d cur errs = Inr errs' \<Longrightarrow>
   map_of errs k \<noteq> Some (required_error k) \<Longrightarrow>
   map_of errs' k \<noteq> Some (required_error k)"
  by (auto simp: check_values_def noreq_set split: if_splits jsval.splits)

text \<open>The round for a key that holds a value that is not empty stores no Required error.\<close>

lemma validate_round_not_empty:
  assumes r: "validate_round env s kind k st = Inr st'"
    and ne: "\<not> valueIsEmpty (prop_get (fst st) k)"
    and no: "map_of (snd st) k \<noteq> Some (required_error k)"
  shows "map_of (snd st') k \<noteq> Some (required_error k)"
proof -
  let ?shp = "has_own (paths s) k"
  let ?d = "case map_of (paths s) k of None \<Rightarrow> [] | Some d \<Rightarrow> d"
  let ?raw = "prop_get (fst st) k"
  let ?pv = "case ?raw of JStr x \<Rightarrow> JStr (js_trim x) | _ \<Rightarrow> ?raw"
  let ?data1 = "if dict_has_own (virtuals s) k then AList.delete k (fst st) else fst st"
  let ?skip = "dict_has_own (virtuals s) k \<or>
                  (\<not> ?shp \<and> strict_eq (prop_get (options s) ''explicitOnly'') (JBool False))"
  let ?e1 = "check_properties kind k ?skip ?shp (snd st)"
  let ?e2 = "check_type env k ?skip ?shp False ?d ?pv ?e1"
  let ?e3 = "check_required k ?skip (isRequired ?shp ?d) False ?e2"
  from r obtain e4 where e4: "check_format env k ?skip ?shp ?d (prop_get ?data1 k) ?e3 = Inr e4"
    using ne
    by (cases "check_format env k ?skip ?shp ?d (prop_get ?data1 k) ?e3")
       (simp_all add: validate_round_def Let_def)
  with r obtain e5 where e5: "check_values k ?skip ?shp ?d (prop_get ?data1 k) e4 = Inr e5"
    using ne
    by (cases "check_values k ?skip ?shp ?d (prop_get ?data1 k) e4")
       (simp_all add: validate_round_def Let_def)
  from r e4 e5 have s': "snd st' = e5"
    using ne by (auto simp: validate_round_def Let_def)
  have 3: "map_of ?e3 k \<noteq> Some (required_error k)"
    by (simp add: check_required_def noreq_check_type noreq_check_properties no)
  have 4: "map_of e4 k \<noteq> Some (required_error k)"
    using noreq_check_format[OF e4 3] .
  show ?thesis
    unfolding s' using noreq_check_values[OF e5 4] .
qed


text \<open>
  C5, as stated, fails where a later check of the same field overwrites the Required
  error, where the field is also a virtual, and where the field is named as one of
  the two categories of errors. A required field \<open>name\<close> with allowed \<open>values\<close> and
  the value null ends with the error of the values check; a required field \<open>email\<close>
  with a rule and a value of blanks ends with the error of the format check; a
  required field \<open>name\<close> that is also declared as a virtual is removed from the data
  and validates; and the Required error of a field \<open>properties\<close> is replaced by the
  error for an undeclared field.
\<close>

theorem validate_required_counterexample:
  "validate (venv plain_env) ((user_entity [(''name'', JNull)])\<lparr>entity_schema := choice_schema\<rparr>)
     = Inr (Failure [(''name'',
                      ValueError ''Value not allowed for name. It must be in the range: a,b'')],
            (user_entity [(''name'', JNull)])\<lparr>entity_schema := choice_schema\<rparr>) \<and>
   validate email_env ((user_entity [(''email'', JStr ''  '')])\<lparr>entity_schema := email_schema\<rparr>)
     = Inr (Failure [(''email'', ValidatorError None ''Wrong format for property {email}'')],
            (user_entity [(''email'', JStr ''  '')])\<lparr>entity_schema := email_schema\<rparr>) \<and>
   validate (venv plain_env)
       ((user_entity [(''name'', JNull)])\<lparr>entity_schema := virtual_name_schema\<rparr>)
     = Inr (Success, (user_entity [])\<lparr>entity_schema := virtual_name_schema\<rparr>) \<and>
   validate (venv plain_env)
       ((user_entity [(''properties'', JNull), (''extra'', JNum 1)])
          \<lparr>entity_schema := properties_schema\<rparr>)
     = Inr (Failure [(''properties'',
                      PropertiesError ''Property not allowed {extra} for User Entity'')],
            (user_entity [(''properties'', JNull), (''extra'', JNum 1)])
              \<lparr>entity_schema := properties_schema\<rparr>)"
  by (simp add: validate_def validate_key_def validate_round_def hides_hasOwnProperty_def
      Let_def user_entity_def choice_schema_def email_schema_def email_env_def
      properties_schema_def virtual_name_schema_def user_schema_def user_paths_def plain_env_def
      has_own_def prop_get_def valueIsEmpty_def dict_has_own_def empty_dict_def
      check_properties_def check_type_def check_required_def check_format_def check_values_def
      isRequired_def errors_set_def required_error_def truthy_def indexOf_def strict_eq_def
      js_trim_def is_ws_def)

text \<open>
  C5, amended. For a data bag with a field \<open>k\<close>, not named \<open>__proto__\<close>, that the
  schema declares with \<open>required: true\<close>, whenever \<open>validate\<close> returns: if the value
  is empty (null, undefined, or a string that \<open>trim\<close> leaves empty) and \<open>k\<close> is not
  also a virtual, the result is a failure with an error stored for \<open>k\<close>; that error
  is the Required error unless a later check of the same field overwrites it (its
  \<open>validate\<close> rule rejects the value, or its \<open>values\<close> do not hold it) or the field
  is named \<open>properties\<close> or \<open>datetime\<close>, where the category errors of other fields
  are stored. If the value is not empty, no Required error is stored for \<open>k\<close>.
\<close>

theorem validate_required:
  assumes dist: "distinct (map fst (entityData this))"
    and present: "map_of (entityData this) k = Some v"
    and decl: "map_of (paths (entity_schema this)) k = Some d"
    and req: "prop_get d ''required'' = JBool True"
    and name: "k \<noteq> ''__proto__''"
    and res: "validate env this = Inr (res, this')"
  shows "((v = JNull \<or> v = JUndefined \<or> (\<exists>x. v = JStr x \<and> js_trim x = [])) \<and>
          \<not> dict_has_own (virtuals (entity_schema this)) k \<longrightarrow>
            (\<exists>errs. res = Failure errs \<and> map_of errs k \<noteq> None)) \<and>
         ((v = JNull \<or> v = JUndefined \<or> (\<exists>x. v = JStr x \<and> js_trim x = [])) \<and>
          \<not> dict_has_own (virtuals (entity_schema this)) k \<and>
          k \<noteq> ''properties'' \<and> k \<noteq> ''datetime'' \<and>
          \<not> format_rejects env d v \<and> \<not> values_rejects d v \<longrightarrow>
            (\<exists>errs. res = Failure errs \<and> map_of errs k = Some (required_error k))) \<and>
         (\<not> (v = JNull \<or> v = JUndefined \<or> (\<exists>x. v = JStr x \<and> js_trim x = [])) \<longrightarrow>
            (\<forall>errs. res = Failure errs \<longrightarrow> map_of errs k \<noteq> Some (required_error k)))"
proof -
  let ?s = "entity_schema this" and ?kind = "entityKind this"
  have empty: "(v = JNull \<or> v = JUndefined \<or> (\<exists>x. v = JStr x \<and> js_trim x = [])) = valueIsEmpty v"
    by (cases v) (simp_all add: valueIsEmpty_def)
  have "k \<in> set (map fst (entityData this))"
    using present by (metis map_of_eq_None_iff option.distinct(1) set_map)
  then obtain ks1 ks2 where keys: "map fst (entityData this) = ks1 @ k # ks2"
    by (meson split_list)
  with dist have k1: "k \<notin> set ks1" and k2: "k \<notin> set ks2"
    by auto
  from res obtain st3 where
    st3: "validate_keys env ?s ?kind (ks1 @ k # ks2) (entityData this, []) = Inr st3"
    and r3: "res = (if length (snd st3) > 0 then Failure (snd st3) else Success)"
    by (cases "validate_keys env ?s ?kind (map fst (entityData this)) (entityData this, [])")
       (auto simp: validate_def keys)
  from st3 obtain st1 where
    st1: "validate_keys env ?s ?kind ks1 (entityData this, []) = Inr st1"
    and rest: "validate_keys env ?s ?kind (k # ks2) st1 = Inr st3"
    by (cases "validate_keys env ?s ?kind ks1 (entityData this, [])")
       (simp_all add: validate_keys_append)
  from rest obtain st2 where
    st2k: "validate_key env ?s ?kind k st1 = Inr st2"
    and st3': "validate_keys env ?s ?kind ks2 st2 = Inr st3"
    by (cases "validate_key env ?s ?kind k st1") simp_all
  note st2 = validate_key_round[OF st2k]
  note o1 = validate_keys_other[OF st1 k1]
  note o2 = validate_keys_other[OF st3' k2]
  have v1: "prop_get (fst st1) k = v"
    using o1 present by (simp add: prop_get_def)
  have n1: "map_of (snd st1) k \<noteq> Some (required_error k)"
    using o1 by simp
  have fail: "res = Failure (snd st3)" if "map_of (snd st3) k \<noteq> None"
    using that r3 by (cases "snd st3") simp_all
  show ?thesis
    unfolding empty
  proof (intro conjI impI)
    assume a: "valueIsEmpty v \<and> \<not> dict_has_own (virtuals ?s) k"
    then have "map_of (snd st2) k \<noteq> None"
      using validate_round_required(1)[OF st2 decl req _ _ name] v1 by simp
    then have "map_of (snd st3) k \<noteq> None" using o2 by simp
    then show "\<exists>errs. res = Failure errs \<and> map_of errs k \<noteq> None"
      using fail by blast
  next
    assume a: "valueIsEmpty v \<and> \<not> dict_has_own (virtuals ?s) k \<and>
          k \<noteq> ''properties'' \<and> k \<noteq> ''datetime'' \<and>
          \<not> format_rejects env d v \<and> \<not> values_rejects d v"
    then have "map_of (snd st2) k = Some (required_error k)"
      using validate_round_required(2)[OF st2 decl req _ _ name] v1 by simp
    then have "map_of (snd st3) k = Some (required_error k)" using o2 a by simp
    then show "\<exists>errs. res = Failure errs \<and> map_of errs k = Some (required_error k)"
      using fail by auto
  next
    assume a: "\<not> valueIsEmpty v"
    then have "map_of (snd st2) k \<noteq> Some (required_error k)"
      using validate_round_not_empty[OF st2 _ n1] v1 by simp
    then have "map_of (snd st3) k \<noteq> Some (required_error k)" using o2 by simp
    then show "\<forall>errs. res = Failure errs \<longrightarrow> map_of errs k \<noteq> Some (required_error k)"
      using r3 by (auto split: if_splits)
  qed
qed

theorem validate_required_witness:
  "validate (venv plain_env) (user_entity [(''name'', JStr [CHR 0xA0, CHR '' '']), (''age'', JNum 3)])
     = Inr (Failure [(''name'', required_error ''name'')],
            user_entity [(''name'', JStr [CHR 0xA0, CHR '' '']), (''age'', JNum 3)]) \<and>
   validate (venv plain_env) (user_entity [(''name'', JStr ''Ann''), (''age'', JNum 3)])
     = Inr (Success, user_entity [(''name'', JStr ''Ann''), (''age'', JNum 3)])"
  using validate_required [where env = "venv plain_env" and k = "''name''"
      and v = "JStr [CHR 0xA0, CHR '' '']"
      and d = "[(''type'', JStr ''string''), (''required'', JBool True)]"
      and this = "user_entity [(''name'', JStr [CHR 0xA0, CHR '' '']), (''age'', JNum 3)]"
      and res = "Failure [(''name'', required_error ''name'')]"
      and this' = "user_entity [(''name'', JStr [CHR 0xA0, CHR '' '']), (''age'', JNum 3)]"]
  by (simp add: validate_def validate_key_def validate_round_def hides_hasOwnProperty_def
      Let_def user_entity_def user_schema_def
      user_paths_def plain_env_def has_own_def prop_get_def valueIsEmpty_def dict_has_own_def
      empty_dict_def check_properties_def check_type_def check_required_def check_format_def
      check_values_def isRequired_def errors_set_def truthy_def typeValid_def js_typeof_def
      isInt_def is_integer_def constructor_name_def js_trim_def is_ws_def)

end
